theory Spec2Isabelle
  imports Main "HOL-Library.Word"
begin

section \<open>Values, errors and the test reporter\<close>

text \<open>
  The package passes Go values of type \<open>any\<close> to its reporter, to the JSON encoder and
  to the JSONPath evaluator. The datatype below has one constructor for each dynamic
  type the package meets: what \<open>json.Unmarshal\<close> puts into an \<open>any\<close> (nil, bool,
  float64, string, slice, map), the \<open>int\<close> of a status code, an \<open>error\<close>, and an
  \<open>io.Reader\<close>, given by the bytes it yields and the error it ends with (none at a
  clean EOF). A float64 is its 64 bits; no arithmetic is done on it here.
  Strings are byte strings, as in Go.
\<close>

datatype error = Error string

datatype any =
    VNil
  | VBool bool
  | VInt int
  | VFloat64 "64 word"
  | VString string
  | VSlice "any list"
  | VMap "(string \<times> any) list"
  | VError error
  | VReader string "error option"

text \<open>
  \<open>TestingTB\<close> is the reporter. The package calls its \<open>Fatal\<close> (always with one
  string, built by \<open>fatal\<close>), \<open>Log\<close>, \<open>Helper\<close> and \<open>Cleanup\<close>. The state of the
  reporter is what it was given: the message of each \<open>Fatal\<close> and the arguments of each
  \<open>Log\<close>. \<open>Helper\<close> only trims stack frames of the report and has no counterpart
  here; the one function given to \<open>Cleanup\<close> by \<open>New\<close> is \<open>New_cleanup\<close> below.

  The comment on \<open>TestingTB\<close> asks for a \<open>testing.TB\<close> in real tests. Its \<open>Fatal\<close>
  logs the message and stops the calling goroutine (\<open>runtime.Goexit\<close>), so the
  statements after a call of \<open>Fatal\<close> are not run, and the code is written for that: it
  uses the value that came with an error only after \<open>must\<close>. A procedure therefore has
  one of three outcomes: it returned a value, it was stopped by \<open>Fatal\<close>, or it ended in
  a Go run-time panic. A reporter whose \<open>Fatal\<close> returns to its caller, as the runner of
  the package's example does, is not covered.
\<close>

record TestingTB =
  fatals :: "string list"
  logs :: "any list list"

datatype 'a outcome = Returned 'a | Fatal | Panic

type_synonym ('s, 'a) proc = "'s \<Rightarrow> 'a outcome \<times> 's"

definition ret :: "'a \<Rightarrow> ('s, 'a) proc" where
  "ret x s = (Returned x, s)"

definition andThen :: "('s, 'a) proc \<Rightarrow> ('a \<Rightarrow> ('s, 'b) proc) \<Rightarrow> ('s, 'b) proc" where
  "andThen m f s =
     (case m s of
        (Returned x, s') \<Rightarrow> f x s'
      | (Fatal, s') \<Rightarrow> (Fatal, s')
      | (Panic, s') \<Rightarrow> (Panic, s'))"

definition t_Fatal :: "string \<Rightarrow> (TestingTB, unit) proc" where
  "t_Fatal msg t = (Fatal, t\<lparr>fatals := fatals t @ [msg]\<rparr>)"

definition t_Log :: "any list \<Rightarrow> (TestingTB, unit) proc" where
  "t_Log args t = (Returned (), t\<lparr>logs := logs t @ [args]\<rparr>)"

section \<open>The libraries the package calls\<close>

text \<open>
  The Go standard library, \<open>gval\<close>/\<open>jsonpath\<close> and the HTTP server under test are not
  part of the package. Each of their functions that the package calls is a field of the
  record \<open>lib\<close> below, so every theorem holds for any behaviour of theirs. A function
  that returns \<open>(value, error)\<close> is a function into \<open>error + value\<close>. An evaluable
  of \<open>gval\<close> keeps Go's pair, since \<open>JsonNotContains\<close> returns the value that came
  with the error.

  Of an \<open>http.Request\<close> the model keeps the method, the URL as its text (\<open>None\<close> for
  the nil pointer that a failed \<open>URL.Parse\<close> leaves), the header and the body, given by
  the bytes its reader yields (\<open>None\<close> for no body). Of an \<open>http.Response\<close> it keeps
  the status code, the header, the body as a reader, and the error of closing the body.
\<close>

type_synonym evaluable = "any \<Rightarrow> any \<times> error option"

type_synonym reader = "string \<times> error option"

type_synonym Header = "string \<rightharpoonup> string list"

record http_Request =
  Method :: string
  URL :: "string option"
  ReqHeader :: Header
  ReqBody :: "string option"

record http_Response =
  StatusCode :: int
  RespHeader :: Header
  RespBody :: reader
  RespBody_Close :: "error option"

text \<open>
  The state of a \<open>multipart.Writer\<close> is the library's own and is the type variable
  \<open>'w\<close>. The writer writes into the \<open>bytes.Buffer\<close> it was made for, so each of its
  operations takes the writer and the bytes of the buffer and returns both with the error.
  \<open>multipart_NewWriter\<close> is the writer that \<open>multipart.NewWriter\<close> returns, with the
  boundary the library chose.
  \<open>fmt_v\<close> is \<open>fmt.Sprintf("%v", v)\<close>; \<open>URL_Parse u ref\<close> is \<open>u.Parse(ref)\<close>;
  \<open>client_Do\<close> is \<open>Do\<close> of the client of the test server; \<open>part_Write\<close> is \<open>Write\<close>
  on the part that \<open>CreateFormFile\<close> or \<open>CreateFormField\<close> returned; \<open>map_range\<close>
  gives the entries of a map in the order in which a \<open>range\<close> statement visits them,
  which the Go run time chooses.
\<close>

record 'w lib =
  fmt_v :: "any \<Rightarrow> string"
  fmt_Sprintf :: "string \<Rightarrow> any list \<Rightarrow> string"
  json_Unmarshal :: "string \<Rightarrow> error + any"
  json_MarshalIndent :: "any \<Rightarrow> error + string"
  NewEvaluable :: "string \<Rightarrow> error + evaluable"
  reflect_DeepEqual :: "any \<Rightarrow> any \<Rightarrow> bool"
  http_NewRequest :: "string \<Rightarrow> string \<Rightarrow> error + http_Request"
  CanonicalMIMEHeaderKey :: "string \<Rightarrow> string"
  URL_Parse :: "string \<Rightarrow> string \<Rightarrow> error + string"
  DumpRequest :: "http_Request \<Rightarrow> error + string"
  DumpResponse :: "http_Response \<Rightarrow> error + string"
  client_Do :: "http_Request \<Rightarrow> error + http_Response"
  multipart_NewWriter :: "'w"
  CreateFormFile :: "string \<Rightarrow> string \<Rightarrow> 'w \<times> string \<Rightarrow> ('w \<times> string) \<times> error option"
  CreateFormField :: "string \<Rightarrow> 'w \<times> string \<Rightarrow> ('w \<times> string) \<times> error option"
  part_Write :: "string \<Rightarrow> 'w \<times> string \<Rightarrow> ('w \<times> string) \<times> error option"
  multipart_Close :: "'w \<times> string \<Rightarrow> ('w \<times> string) \<times> error option"
  FormDataContentType :: "'w \<Rightarrow> string"
  map_range :: "(string \<rightharpoonup> string) \<Rightarrow> (string \<times> string) list"

section \<open>assert.go\<close>

text \<open>
  \<open>format\<close> is \<open>fmt.Sprintf("%v", val)\<close>: a string prints as itself and an error as
  its message; the print of any other value is the library's.
\<close>

definition format :: "'w lib \<Rightarrow> any \<Rightarrow> string" where
  "format L val =
     (case val of
        VString s \<Rightarrow> s
      | VError (Error m) \<Rightarrow> m
      | _ \<Rightarrow> fmt_v L val)"

fun strings_Join :: "string list \<Rightarrow> string \<Rightarrow> string" where
  "strings_Join [] sep = []"
| "strings_Join [x] sep = x"
| "strings_Join (x # y # ys) sep = x @ sep @ strings_Join (y # ys) sep"

definition fatal :: "'w lib \<Rightarrow> any \<Rightarrow> any list \<Rightarrow> (TestingTB, unit) proc" where
  "fatal L failure extra =
     t_Fatal (strings_Join (format L failure # map (format L) extra) ''\<newline>'')"

definition must :: "'w lib \<Rightarrow> error option \<Rightarrow> any list \<Rightarrow> (TestingTB, unit) proc" where
  "must L err extra =
     (case err of
        None \<Rightarrow> ret ()
      | Some e \<Rightarrow> fatal L (VError e) extra)"

text \<open>
  The idiom \<open>x, err := f(...); must(t, err, extra...)\<close>. When \<open>f\<close> returned an
  error, \<open>must\<close> ends in \<open>Fatal\<close> and the statements after it, which would use
  \<open>x\<close>, are not reached.
\<close>

definition must_ok :: "'w lib \<Rightarrow> error + 'a \<Rightarrow> any list \<Rightarrow> (TestingTB, 'a) proc" where
  "must_ok L r extra =
     (case r of
        Inl err \<Rightarrow> andThen (must L (Some err) extra) (\<lambda>_. (\<lambda>t. (Panic, t)))
      | Inr x \<Rightarrow> andThen (must L None extra) (\<lambda>_. ret x))"

definition equals :: "'w lib \<Rightarrow> any \<Rightarrow> any \<Rightarrow> any list \<Rightarrow> (TestingTB, unit) proc" where
  "equals L expected actual extra =
     (if \<not> reflect_DeepEqual L expected actual
      then fatal L (VString ''values are not equal'')
             ([VString ''expected'', expected, VString ''actual'', actual] @ extra)
      else ret ())"

section \<open>json.go\<close>

text \<open>
  \<open>MustParseJson\<close> reads its reader to the end. After the report of an empty input the
  code goes on to \<open>json.Unmarshal\<close>; with the reporter above that statement is not
  reached.
\<close>

definition io_ReadAll :: "reader \<Rightarrow> string \<times> error option" where
  "io_ReadAll r = r"

definition strings_NewReader :: "string \<Rightarrow> reader" where
  "strings_NewReader s = (s, None)"

definition MustParseJson ::
  "'w lib \<Rightarrow> reader \<Rightarrow> any list \<Rightarrow> (TestingTB, any) proc" where
  "MustParseJson L inp extra =
     (case io_ReadAll inp of (byteData, err) \<Rightarrow>
        andThen (must L err extra) (\<lambda>_.
        andThen (if length byteData = 0
                 then fatal L (VString ''cannot JSON parse an empty string'') extra
                 else ret ()) (\<lambda>_.
        andThen (must_ok L (json_Unmarshal L byteData) extra) (\<lambda>out.
        ret out))))"

definition DataContains ::
  "'w lib \<Rightarrow> any \<Rightarrow> string \<Rightarrow> any list \<Rightarrow> (TestingTB, any) proc" where
  "DataContains L data pathexpr extra =
     andThen (must_ok L (NewEvaluable L pathexpr) extra) (\<lambda>path.
     case path data of (captured, err) \<Rightarrow>
       andThen (must L err [VString ''failed to capture JSON path'', VString pathexpr,
                            VString ''full data'', data]) (\<lambda>_.
       ret captured))"

definition JsonContains ::
  "'w lib \<Rightarrow> string \<Rightarrow> string \<Rightarrow> any list \<Rightarrow> (TestingTB, any) proc" where
  "JsonContains L data pathexpr extra =
     andThen (MustParseJson L (strings_NewReader data) extra) (\<lambda>body.
     DataContains L body pathexpr extra)"

definition JsonContainsStr ::
  "'w lib \<Rightarrow> string \<Rightarrow> string \<Rightarrow> any list \<Rightarrow> (TestingTB, string) proc" where
  "JsonContainsStr L data pathexpr extra =
     andThen (JsonContains L data pathexpr extra) (\<lambda>captured.
     case captured of
       VString capturedStr \<Rightarrow> ret capturedStr
     | _ \<Rightarrow>
         andThen (fatal L (VString ''jsonpath does not resolve to a string value'')
                    ([VString ''path'', VString pathexpr, VString ''val'', captured,
                      VString ''full data'', VString data] @ extra)) (\<lambda>_.
         ret []))"

definition JsonNotContains ::
  "'w lib \<Rightarrow> string \<Rightarrow> string \<Rightarrow> any list \<Rightarrow> (TestingTB, any) proc" where
  "JsonNotContains L data pathexpr extra =
     andThen (must_ok L (NewEvaluable L pathexpr) extra) (\<lambda>path.
     andThen (MustParseJson L (strings_NewReader data) extra) (\<lambda>body.
     case path body of (captured, err) \<Rightarrow>
       andThen (if err = None
                then fatal L (VString ''did not expect JSON path to exist'')
                       [VString ''path'', VString pathexpr, VString ''matched'', captured]
                else ret ()) (\<lambda>_.
       ret captured)))"

section \<open>httptester.go: the tester and its requests\<close>

text \<open>
  \<open>Header.Set\<close> and \<open>Header.Get\<close> of \<open>net/http\<close>: the key is canonicalised, \<open>Set\<close>
  replaces the values of the key by the one value, \<open>Get\<close> returns the first value or
  the empty string.
\<close>

definition Header_Set :: "'w lib \<Rightarrow> Header \<Rightarrow> string \<Rightarrow> string \<Rightarrow> Header" where
  "Header_Set L hdr key val = hdr(CanonicalMIMEHeaderKey L key \<mapsto> [val])"

definition Header_Get :: "'w lib \<Rightarrow> Header \<Rightarrow> string \<Rightarrow> string" where
  "Header_Get L hdr key =
     (case hdr (CanonicalMIMEHeaderKey L key) of
        Some (v # _) \<Rightarrow> v
      | _ \<Rightarrow> [])"

text \<open>
  An \<open>HttpTesterRequest\<close>. The field \<open>done\<close> is \<open>done'\<close> here. The back pointer
  \<open>tester\<close> is not a field: a request lives in the list of its tester, and a pointer to
  a request is its index in that list. A nil \<open>multipartForm\<close> is \<open>None\<close>;
  \<open>multipartFormBuffer\<close> holds the bytes of the buffer, which exists from the first
  call of \<open>multipart\<close> on and is read only then.
\<close>

record 'w HttpTesterRequest =
  request :: http_Request
  done' :: bool
  stack :: string
  multipartForm :: "'w option"
  multipartFormBuffer :: string

text \<open>
  An \<open>HttpTester\<close>: the reporter \<open>t\<close> (its state), the URL of \<open>srv\<close> and the requests.
  The client of \<open>srv\<close> is \<open>client_Do\<close> of the libraries; the field \<open>multipartForm\<close> of
  the tester is never used by the source.
\<close>

record 'w HttpTester =
  tb :: TestingTB
  srv_URL :: string
  requests :: "'w HttpTesterRequest list"

text \<open>
  Code that holds a pointer to a request runs on the pair of that request and the
  reporter; \<open>with_request\<close> runs it on the request at an index of the tester and stores
  the request back, also when the code was stopped by \<open>Fatal\<close>.
\<close>

type_synonym 'w rstate = "'w HttpTesterRequest \<times> TestingTB"

definition on_t :: "(TestingTB, 'a) proc \<Rightarrow> ('w rstate, 'a) proc" where
  "on_t m = (\<lambda>(h, t). case m t of (r, t') \<Rightarrow> (r, (h, t')))"

definition on_req ::
  "('w HttpTesterRequest \<Rightarrow> 'w HttpTesterRequest) \<Rightarrow> ('w rstate, unit) proc" where
  "on_req f = (\<lambda>(h, t). (Returned (), (f h, t)))"

definition get_req :: "('w rstate, 'w HttpTesterRequest) proc" where
  "get_req = (\<lambda>(h, t). (Returned h, (h, t)))"

definition with_t :: "(TestingTB, 'a) proc \<Rightarrow> ('w HttpTester, 'a) proc" where
  "with_t m h = (case m (tb h) of (r, t') \<Rightarrow> (r, h\<lparr>tb := t'\<rparr>))"

definition with_request :: "nat \<Rightarrow> ('w rstate, 'a) proc \<Rightarrow> ('w HttpTester, 'a) proc" where
  "with_request i m h =
     (if i < length (requests h)
      then (case m (requests h ! i, tb h) of
              (r, (req', t')) \<Rightarrow> (r, h\<lparr>tb := t', requests := (requests h)[i := req']\<rparr>))
      else (Panic, h))"

subsection \<open>New and its cleanup\<close>

text \<open>
  \<open>New\<close> registers one cleanup with the reporter, which runs it when the test ends. The
  closure is \<open>New_cleanup\<close>; its loop over \<open>tester.requests\<close> is \<open>cleanup_loop\<close>.
\<close>

definition New :: "TestingTB \<Rightarrow> string \<Rightarrow> 'w HttpTester" where
  "New t srv = \<lparr>tb = t, srv_URL = srv, requests = []\<rparr>"

fun cleanup_loop :: "'w lib \<Rightarrow> 'w HttpTesterRequest list \<Rightarrow> (TestingTB, unit) proc" where
  "cleanup_loop L [] = ret ()"
| "cleanup_loop L (req # rest) =
     andThen (if \<not> done' req
              then fatal L (VString (''forgot to execute Test on test request at:\<newline>''
                                      @ stack req @ ''\<newline>'')) []
              else ret ()) (\<lambda>_.
     cleanup_loop L rest)"

definition New_cleanup :: "'w lib \<Rightarrow> ('w HttpTester, unit) proc" where
  "New_cleanup L tester = with_t (cleanup_loop L (requests tester)) tester"

subsection \<open>Request options\<close>

text \<open>
  A \<open>RequestOption\<close> is a closure over a request. Each constructor below is one of the
  closures the package builds, with the variables it captured; \<open>apply_option\<close> is the
  body of the closure.
\<close>

datatype RequestOption =
    HeaderOption string string
  | JsonBodyOption string "any list"
  | MultipartFormFileOption string string reader
  | MultipartFormFieldOption string string

definition Header :: "string \<Rightarrow> string \<Rightarrow> RequestOption" where
  "Header name val = HeaderOption name val"

definition Bearer :: "string \<Rightarrow> RequestOption" where
  "Bearer token = Header ''Authorization'' (''Bearer '' @ token)"

text \<open>
  \<open>JsonBody\<close> works before it returns its closure. It reads a reader to the end into
  \<open>bodyStr\<close>; then the assertion \<open>bodyStr, isStr = body.(string)\<close> assigns
  \<open>bodyStr\<close> again, the empty string when \<open>body\<close> is not a string; then whatever is not
  a string goes to \<open>json.MarshalIndent\<close>, the reader too, which by then is at its end.
\<close>

definition JsonBody :: "'w lib \<Rightarrow> any \<Rightarrow> any list \<Rightarrow> (TestingTB, RequestOption) proc" where
  "JsonBody L body args =
     andThen (case body of
                VReader content rerr \<Rightarrow>
                  (case io_ReadAll (content, rerr) of (bodyBytes, err) \<Rightarrow>
                     andThen (must L err []) (\<lambda>_. ret (bodyBytes, VReader [] rerr)))
              | _ \<Rightarrow> ret ([], body)) (\<lambda>(bodyStr, body).
     case (case body of VString s \<Rightarrow> (s, True) | _ \<Rightarrow> ([], False)) of (bodyStr, isStr) \<Rightarrow>
       andThen (if \<not> isStr
                then must_ok L (json_MarshalIndent L body)
                       [VString ''cannot convert body data to JSON'', body]
                else ret bodyStr) (\<lambda>bodyStr.
       ret (JsonBodyOption bodyStr args)))"

definition multipart :: "'w lib \<Rightarrow> ('w rstate, 'w \<times> string) proc" where
  "multipart L =
     andThen get_req (\<lambda>h.
     andThen (if multipartForm h = None
              then on_req (\<lambda>h. h\<lparr>multipartFormBuffer := [],
                                  multipartForm := Some (multipart_NewWriter L)\<rparr>)
              else ret ()) (\<lambda>_.
     andThen get_req (\<lambda>h.
     case multipartForm h of
       None \<Rightarrow> (\<lambda>s. (Panic, s))
     | Some w \<Rightarrow> ret (w, multipartFormBuffer h))))"

definition set_multipart :: "'w \<times> string \<Rightarrow> ('w rstate, unit) proc" where
  "set_multipart st =
     on_req (\<lambda>h. h\<lparr>multipartForm := Some (fst st), multipartFormBuffer := snd st\<rparr>)"

definition io_Copy ::
  "'w lib \<Rightarrow> reader \<Rightarrow> 'w \<times> string \<Rightarrow> ('w \<times> string) \<times> error option" where
  "io_Copy L src st =
     (case part_Write L (fst src) st of
        (st', Some e) \<Rightarrow> (st', Some e)
      | (st', None) \<Rightarrow> (st', snd src))"

fun apply_option :: "'w lib \<Rightarrow> RequestOption \<Rightarrow> ('w rstate, unit) proc" where
  "apply_option L (HeaderOption name val) =
     on_req (\<lambda>req. req\<lparr>request := (request req)
       \<lparr>ReqHeader := Header_Set L (ReqHeader (request req)) name val\<rparr>\<rparr>)"
| "apply_option L (JsonBodyOption bodyStr args) =
     andThen (on_req (\<lambda>req. req\<lparr>request := (request req)
       \<lparr>ReqHeader := Header_Set L (ReqHeader (request req))
                      ''Content-Type'' ''application/json''\<rparr>\<rparr>)) (\<lambda>_.
     on_req (\<lambda>req. req\<lparr>request := (request req)
       \<lparr>ReqBody := Some (fmt_Sprintf L bodyStr args)\<rparr>\<rparr>))"
| "apply_option L (MultipartFormFileOption fieldname filename data) =
     andThen (multipart L) (\<lambda>st.
     case CreateFormFile L fieldname filename st of (st1, err) \<Rightarrow>
       andThen (set_multipart st1) (\<lambda>_.
       andThen (on_t (must L err [])) (\<lambda>_.
       case io_Copy L data st1 of (st2, err) \<Rightarrow>
         andThen (set_multipart st2) (\<lambda>_.
         on_t (must L err [])))))"
| "apply_option L (MultipartFormFieldOption name val) =
     andThen (multipart L) (\<lambda>st.
     case CreateFormField L name st of (st1, err) \<Rightarrow>
       andThen (set_multipart st1) (\<lambda>_.
       andThen (on_t (must L err [])) (\<lambda>_.
       case part_Write L val st1 of (st2, err) \<Rightarrow>
         andThen (set_multipart st2) (\<lambda>_.
         on_t (must L err [])))))"

definition MultipartFormFile :: "string \<Rightarrow> string \<Rightarrow> reader \<Rightarrow> RequestOption" where
  "MultipartFormFile fieldname filename data = MultipartFormFileOption fieldname filename data"

definition MultipartFormField :: "string \<Rightarrow> string \<Rightarrow> RequestOption" where
  "MultipartFormField name val = MultipartFormFieldOption name val"

fun apply_options :: "'w lib \<Rightarrow> RequestOption list \<Rightarrow> ('w rstate, unit) proc" where
  "apply_options L [] = ret ()"
| "apply_options L (opt # options) =
     andThen (apply_option L opt) (\<lambda>_. apply_options L options)"

text \<open>
  \<open>Request\<close>. The bytes \<open>debug.Stack()\<close> returns are those of the call site and are the
  argument \<open>stk\<close>. The new request is appended to \<open>h.requests\<close> before the options run.
\<close>

definition Request ::
  "'w lib \<Rightarrow> string \<Rightarrow> string \<Rightarrow> string \<Rightarrow> RequestOption list \<Rightarrow> ('w HttpTester, nat) proc" where
  "Request L method path stk options =
     andThen (with_t (must_ok L (http_NewRequest L method path) [])) (\<lambda>req.
     (\<lambda>h. let request = \<lparr>request = req, done' = False, stack = stk,
                           multipartForm = None, multipartFormBuffer = []\<rparr>;
               ptr = length (requests h)
           in andThen (with_request ptr (apply_options L options)) (\<lambda>_. ret ptr)
                (h\<lparr>requests := requests h @ [request]\<rparr>)))"

subsection \<open>Expectations\<close>

text \<open>
  A \<open>responseExpectation\<close> is a function of the response, its body and the extra
  arguments of the report, as in the source. The pointer \<open>request\<close> of an
  \<open>HttpExpectation\<close> is the field \<open>request_ptr\<close>.
\<close>

type_synonym responseExpectation =
  "http_Response \<Rightarrow> string \<Rightarrow> any list \<Rightarrow> (TestingTB, unit) proc"

record HttpExpectation =
  request_ptr :: nat
  responseExpectations :: "responseExpectation list"
  jsonCaptures :: "string \<rightharpoonup> string"

type_synonym ResponseOption = "HttpExpectation \<Rightarrow> HttpExpectation"

definition addExpectation :: "HttpExpectation \<Rightarrow> responseExpectation \<Rightarrow> HttpExpectation" where
  "addExpectation h expectation =
     h\<lparr>responseExpectations := responseExpectations h @ [expectation]\<rparr>"

text \<open>\<open>strings.Index\<close>: the index of the first instance of \<open>substr\<close>, or \<open>-1\<close>.\<close>

fun strings_Index :: "string \<Rightarrow> string \<Rightarrow> int" where
  "strings_Index [] substr = (if substr = [] then 0 else - 1)"
| "strings_Index (c # s) substr =
     (if take (length substr) (c # s) = substr then 0
      else (let i = strings_Index s substr in if i < 0 then - 1 else i + 1))"

definition ExpectCode :: "'w lib \<Rightarrow> int \<Rightarrow> ResponseOption" where
  "ExpectCode L code = (\<lambda>expectation.
     addExpectation expectation (\<lambda>response body extra.
       equals L (VInt code) (VInt (StatusCode response)) extra))"

definition ExpectBodyContains :: "'w lib \<Rightarrow> string \<Rightarrow> ResponseOption" where
  "ExpectBodyContains L content = (\<lambda>expectation.
     addExpectation expectation (\<lambda>response body extra.
       if strings_Index body content < 0
       then fatal L (VString ''body contains failed'')
              ([VString ''contains'', VString content, VString ''body'', VString body] @ extra)
       else ret ()))"

definition ExpectContentType :: "'w lib \<Rightarrow> string \<Rightarrow> ResponseOption" where
  "ExpectContentType L contentType = (\<lambda>expectation.
     addExpectation expectation (\<lambda>response body extra.
       equals L (VString contentType)
         (VString (Header_Get L (RespHeader response) ''Content-Type'')) extra))"

definition ExpectJsonExists :: "'w lib \<Rightarrow> string \<Rightarrow> ResponseOption" where
  "ExpectJsonExists L path = (\<lambda>expectation.
     addExpectation expectation (\<lambda>response body extra.
       andThen (JsonContainsStr L body path extra) (\<lambda>_. ret ())))"

definition ExpectJsonMatchStr :: "'w lib \<Rightarrow> string \<Rightarrow> string \<Rightarrow> ResponseOption" where
  "ExpectJsonMatchStr L path match = (\<lambda>expectation.
     addExpectation expectation (\<lambda>response body extra.
       let extra = VString (''json path: '' @ path) # extra
       in andThen (JsonContainsStr L body path extra) (\<lambda>actual.
          equals L (VString match) (VString actual) extra)))"

definition ExpectJsonMatch :: "'w lib \<Rightarrow> string \<Rightarrow> any \<Rightarrow> ResponseOption" where
  "ExpectJsonMatch L path match = (\<lambda>expectation.
     addExpectation expectation (\<lambda>response body extra.
       let extra = VString (''json path: '' @ path) # extra
       in andThen (JsonContains L body path extra) (\<lambda>actual.
          equals L match actual extra)))"

definition CaptureJson :: "string \<Rightarrow> string \<Rightarrow> ResponseOption" where
  "CaptureJson name jsonpath = (\<lambda>expectation.
     expectation\<lparr>jsonCaptures := (jsonCaptures expectation)(name \<mapsto> jsonpath)\<rparr>)"

definition Expect :: "nat \<Rightarrow> ResponseOption list \<Rightarrow> HttpExpectation" where
  "Expect h options =
     fold (\<lambda>opt expectation. opt expectation) options
       \<lparr>request_ptr = h, responseExpectations = [], jsonCaptures = Map.empty\<rparr>"

subsection \<open>finalise and Test\<close>

text \<open>
  \<open>finalise\<close> returns the pointer \<open>h.request\<close>; \<open>Test\<close> then works on the
  \<open>http.Request\<close> of the request in place. The body given to the request is a reader of
  the buffer: when the request is sent, nothing has read from the buffer before, and
  nothing writes to it after the writer was closed, so the body is the content of the
  buffer at that point.
\<close>

definition finalise :: "'w lib \<Rightarrow> ('w rstate, unit) proc" where
  "finalise L =
     andThen get_req (\<lambda>h.
     case multipartForm h of
       None \<Rightarrow> ret ()
     | Some w \<Rightarrow>
         (case multipart_Close L (w, multipartFormBuffer h) of (st, err) \<Rightarrow>
            andThen (set_multipart st) (\<lambda>_.
            andThen (on_t (must L err [])) (\<lambda>_.
            andThen (on_req (\<lambda>h. h\<lparr>request := (request h)
              \<lparr>ReqBody := Some (multipartFormBuffer h)\<rparr>\<rparr>)) (\<lambda>_.
            on_req (\<lambda>h. h\<lparr>request := (request h)
              \<lparr>ReqHeader := Header_Set L (ReqHeader (request h)) ''Content-Type''
                             (FormDataContentType L (fst st))\<rparr>\<rparr>))))))"

text \<open>
  Modelled from the spec: \<open>fbrmath.Min\<close> is a function of the package
  \<open>frostember-server/pkg/fbrmath\<close>, which is not among the sources. The dumps are
  "truncated to a configurable maximum length", so the first of its two results is the
  smaller of its arguments; the second result is dropped by the caller.
\<close>

definition fbrmath_Min :: "int \<Rightarrow> int \<Rightarrow> int" where
  "fbrmath_Min a b = min a b"

text \<open>
  The variable \<open>MaxReqRespOutput\<close> is initialised to 1200 and may be assigned by the
  test author; \<open>Test\<close> reads it when it runs, and takes its value as an argument here.
\<close>

definition MaxReqRespOutput :: int where
  "MaxReqRespOutput = 1200"

text \<open>The slice expression \<open>data[0:l]\<close>, which panics when \<open>l\<close> is out of range.\<close>

definition slice_to :: "string \<Rightarrow> int \<Rightarrow> ('s, string) proc" where
  "slice_to data l =
     (if 0 \<le> l \<and> l \<le> int (length data)
      then ret (take (nat l) data)
      else (\<lambda>s. (Panic, s)))"

definition truncated :: "int \<Rightarrow> string \<Rightarrow> ('s, string) proc" where
  "truncated maxOut data = slice_to data (fbrmath_Min maxOut (int (length data)))"

fun run_expectations ::
  "responseExpectation list \<Rightarrow> http_Response \<Rightarrow> string \<Rightarrow> any list \<Rightarrow> (TestingTB, unit) proc" where
  "run_expectations [] resp bodyStr extra = ret ()"
| "run_expectations (expectation # rest) resp bodyStr extra =
     andThen (expectation resp bodyStr extra) (\<lambda>_.
     run_expectations rest resp bodyStr extra)"

fun run_captures ::
  "'w lib \<Rightarrow> (string \<times> string) list \<Rightarrow> string \<Rightarrow> any list \<Rightarrow> (string \<rightharpoonup> string)
     \<Rightarrow> (TestingTB, string \<rightharpoonup> string) proc" where
  "run_captures L [] bodyStr extra captures = ret captures"
| "run_captures L ((name, expr) # rest) bodyStr extra captures =
     andThen (JsonContainsStr L bodyStr expr extra) (\<lambda>v.
     run_captures L rest bodyStr extra (captures(name \<mapsto> v)))"

text \<open>
  \<open>Test\<close> is given in three parts, in the order of its statements: the part that
  prepares the request to send (it sets \<open>done\<close>, calls \<open>finalise\<close> and resolves the
  URL), the exchange with the server together with the two dumps, and the checks and
  captures. Only the first part writes to the request.
\<close>

definition Test_prepare :: "'w lib \<Rightarrow> string \<Rightarrow> any list \<Rightarrow> ('w rstate, http_Request) proc" where
  "Test_prepare L srv extra =
     andThen (on_req (\<lambda>req. req\<lparr>done' := True\<rparr>)) (\<lambda>_.
     andThen (finalise L) (\<lambda>_.
     andThen get_req (\<lambda>req.
     case URL (request req) of
       None \<Rightarrow> (\<lambda>s. (Panic, s))
     | Some url \<Rightarrow>
        (let parsed = URL_Parse L url (srv @ url) in
         andThen (on_req (\<lambda>req. req\<lparr>request := (request req)
           \<lparr>URL := (case parsed of Inl _ \<Rightarrow> None | Inr u \<Rightarrow> Some u)\<rparr>\<rparr>)) (\<lambda>_.
         andThen (on_t (must_ok L parsed extra)) (\<lambda>_.
         andThen get_req (\<lambda>req.
         ret (request req))))))))"

definition Test_exchange ::
  "'w lib \<Rightarrow> int \<Rightarrow> http_Request \<Rightarrow> any list
     \<Rightarrow> (TestingTB, http_Response \<times> string \<times> any list) proc" where
  "Test_exchange L maxOut r extra =
     andThen (case DumpRequest L r of
                Inr reqData \<Rightarrow>
                  andThen (truncated maxOut reqData) (\<lambda>s.
                  ret (extra @ [VString ''HTTP request:'', VString s]))
              | Inl _ \<Rightarrow> ret extra) (\<lambda>extra.
     andThen (must_ok L (client_Do L r) extra) (\<lambda>resp.
     case io_ReadAll (RespBody resp) of (body, err) \<Rightarrow>
       andThen (must L err extra) (\<lambda>_.
       andThen (must L (RespBody_Close resp) []) (\<lambda>_.
       let resp = resp\<lparr>RespBody := (body, None), RespBody_Close := None\<rparr>;
           bodyStr = body
       in
       andThen (case DumpResponse L resp of
                  Inr respData \<Rightarrow>
                    andThen (truncated maxOut respData) (\<lambda>s.
                    ret (extra @ [VString ''HTTP response:'', VString s]))
                | Inl err \<Rightarrow>
                    andThen (t_Log [VError err]) (\<lambda>_. ret extra)) (\<lambda>extra.
       ret (resp, bodyStr, extra))))))"

definition Test_checks ::
  "'w lib \<Rightarrow> HttpExpectation \<Rightarrow> http_Response \<Rightarrow> string \<Rightarrow> any list
     \<Rightarrow> (TestingTB, string \<rightharpoonup> string) proc" where
  "Test_checks L h resp bodyStr extra =
     andThen (run_expectations (responseExpectations h) resp bodyStr extra) (\<lambda>_.
     run_captures L (map_range L (jsonCaptures h)) bodyStr extra Map.empty)"

definition Test_request ::
  "'w lib \<Rightarrow> int \<Rightarrow> string \<Rightarrow> HttpExpectation \<Rightarrow> any list
     \<Rightarrow> ('w rstate, string \<rightharpoonup> string) proc" where
  "Test_request L maxOut srv h extra =
     andThen (Test_prepare L srv extra) (\<lambda>r.
     on_t (andThen (Test_exchange L maxOut r extra) (\<lambda>(resp, bodyStr, extra).
           Test_checks L h resp bodyStr extra)))"

definition Test ::
  "'w lib \<Rightarrow> int \<Rightarrow> HttpExpectation \<Rightarrow> any list \<Rightarrow> ('w HttpTester, string \<rightharpoonup> string) proc" where
  "Test L maxOut h extra tester =
     with_request (request_ptr h) (Test_request L maxOut (srv_URL tester) h extra) tester"

section \<open>Definitions used to state and prove the properties\<close>

text \<open>The options whose closure calls \<open>multipart\<close>.\<close>

definition is_multipart :: "RequestOption \<Rightarrow> bool" where
  "is_multipart opt =
     (case opt of
        MultipartFormFileOption _ _ _ \<Rightarrow> True
      | MultipartFormFieldOption _ _ \<Rightarrow> True
      | _ \<Rightarrow> False)"

text \<open>
  \<open>keeps f m\<close>: the code \<open>m\<close> leaves the part \<open>f\<close> of the request as it was, whatever
  its outcome.
\<close>

definition keeps :: "('w HttpTesterRequest \<Rightarrow> 'b) \<Rightarrow> ('w rstate, 'a) proc \<Rightarrow> bool" where
  "keeps f m = (\<forall>h t out h' t'. m (h, t) = (out, (h', t')) \<longrightarrow> f h' = f h)"

text \<open>
  The writer and buffer that \<open>multipart\<close> returns for a request, the request with a
  writer and buffer stored, and the two library calls of a multipart option, each
  followed by \<open>must\<close>.
\<close>

definition mp_state :: "'w lib \<Rightarrow> 'w HttpTesterRequest \<Rightarrow> 'w \<times> string" where
  "mp_state L h =
     (case multipartForm h of
        None \<Rightarrow> (multipart_NewWriter L, [])
      | Some w \<Rightarrow> (w, multipartFormBuffer h))"

definition put_mp :: "'w \<times> string \<Rightarrow> 'w HttpTesterRequest \<Rightarrow> 'w HttpTesterRequest" where
  "put_mp st h = h\<lparr>multipartForm := Some (fst st), multipartFormBuffer := snd st\<rparr>"

definition reported :: "'w lib \<Rightarrow> any \<Rightarrow> any list \<Rightarrow> TestingTB \<Rightarrow> TestingTB" where
  "reported L failure extra t =
     t\<lparr>fatals := fatals t @ [strings_Join (format L failure # map (format L) extra) ''\<newline>'']\<rparr>"

definition two_writes ::
  "'w lib \<Rightarrow> ('w \<times> string \<Rightarrow> ('w \<times> string) \<times> error option)
     \<Rightarrow> ('w \<times> string \<Rightarrow> ('w \<times> string) \<times> error option)
     \<Rightarrow> 'w \<times> string \<Rightarrow> TestingTB \<Rightarrow> unit outcome \<times> ('w \<times> string) \<times> TestingTB" where
  "two_writes L f g st0 t =
     (case f st0 of
        (st1, Some e) \<Rightarrow> (Fatal, st1, reported L (VError e) [] t)
      | (st1, None) \<Rightarrow>
          (case g st1 of
             (st2, Some e) \<Rightarrow> (Fatal, st2, reported L (VError e) [] t)
           | (st2, None) \<Rightarrow> (Returned (), st2, t)))"

text \<open>What a dump adds to the extra arguments of the reports.\<close>

definition dump_extra :: "int \<Rightarrow> string \<Rightarrow> error + string \<Rightarrow> any list" where
  "dump_extra maxOut label dump =
     (case dump of
        Inl _ \<Rightarrow> []
      | Inr data \<Rightarrow> [VString label, VString (take (nat maxOut) data)])"

text \<open>The message of the cleanup for a request with the given stack.\<close>

definition forgot :: "string \<Rightarrow> string" where
  "forgot stk = ''forgot to execute Test on test request at:\<newline>'' @ stk @ ''\<newline>''"

subsection \<open>Stand-ins for the libraries\<close>

text \<open>
  To run the model on concrete inputs the libraries need values. \<open>example_lib\<close> is a
  small stand-in: a JSON decoder that knows three documents, an evaluator for paths of
  the form \<open>$.key\<close> on an object, an HTTP server that always answers
  \<open>200 {"id":"7"}\<close>, and a multipart writer that writes a marker for each part and
  for the end. It serves only in the examples.
\<close>

definition example_evaluable :: "string \<Rightarrow> evaluable" where
  "example_evaluable key doc =
     (case doc of
        VMap kvs \<Rightarrow>
          (case map_of kvs key of
             Some v \<Rightarrow> (v, None)
           | None \<Rightarrow> (VNil, Some (Error (''unknown key '' @ key))))
      | _ \<Rightarrow> (VNil, Some (Error (''unknown key '' @ key))))"

definition example_lib :: "string list lib" where
  \<open>example_lib = \<lparr>
     fmt_v = (\<lambda>v.
       case v of
         VBool b \<Rightarrow> (if b then ''true'' else ''false'')
       | VInt n \<Rightarrow> (if n = 200 then ''200'' else if n = 404 then ''404'' else ''<int>'')
       | _ \<Rightarrow> ''<value>''),
     fmt_Sprintf = (\<lambda>f args. f),
     json_Unmarshal = (\<lambda>s.
       if s = ''{"id":"7"}'' then Inr (VMap [(''id'', VString ''7'')])
       else if s = ''{"id":""}'' then Inr (VMap [(''id'', VString [])])
       else if s = ''{"id":true}'' then Inr (VMap [(''id'', VBool True)])
       else Inl (Error ''invalid character'')),
     json_MarshalIndent = (\<lambda>v.
       case v of VReader _ _ \<Rightarrow> Inr ''{}'' | _ \<Rightarrow> Inl (Error ''unsupported type'')),
     NewEvaluable = (\<lambda>p.
       case p of
         CHR ''$'' # CHR ''.'' # key \<Rightarrow> Inr (example_evaluable key)
       | _ \<Rightarrow> Inl (Error ''parsing error'')),
     reflect_DeepEqual = (\<lambda>a b. a = b),
     http_NewRequest = (\<lambda>method path.
       if CHR '' '' \<in> set method then Inl (Error ''invalid method'')
       else Inr \<lparr>Method = (if method = [] then ''GET'' else method), URL = Some path,
                 ReqHeader = Map.empty, ReqBody = None\<rparr>),
     CanonicalMIMEHeaderKey = (\<lambda>k. k),
     URL_Parse = (\<lambda>base ref. Inr ref),
     DumpRequest = (\<lambda>r.
       Inr (Method r @ '' '' @ (case URL r of Some u \<Rightarrow> u | None \<Rightarrow> [])
            @ (case ReqBody r of Some b \<Rightarrow> '' '' @ b | None \<Rightarrow> []))),
     DumpResponse = (\<lambda>resp. Inr (fst (RespBody resp))),
     client_Do = (\<lambda>r. Inr \<lparr>StatusCode = 200, RespHeader = Map.empty,
                            RespBody = (''{"id":"7"}'', None), RespBody_Close = None\<rparr>),
     multipart_NewWriter = [],
     CreateFormFile = (\<lambda>fieldname filename (w, buf).
       ((w @ [fieldname], buf @ ''--B file '' @ fieldname @ '' ''), None)),
     CreateFormField = (\<lambda>name (w, buf).
       ((w @ [name], buf @ ''--B field '' @ name @ '' ''), None)),
     part_Write = (\<lambda>bytes (w, buf). ((w, buf @ bytes), None)),
     multipart_Close = (\<lambda>(w, buf). ((w, buf @ ''--B--''), None)),
     FormDataContentType = (\<lambda>w. ''multipart/form-data; boundary=B''),
     map_range = (\<lambda>m. List.map_filter (\<lambda>k. map_option (Pair k) (m k)) [''id''])
   \<rparr>\<close>

definition example_tb :: TestingTB where
  "example_tb = \<lparr>fatals = [], logs = []\<rparr>"

section \<open>Running the procedures\<close>

lemmas proc_simps = andThen_def ret_def fatal_def t_Fatal_def must_def must_ok_def reported_def

lemmas rstate_simps = on_t_def on_req_def get_req_def set_multipart_def

lemma fatal_run: "fatal L failure extra t = (Fatal, reported L failure extra t)"
  by (simp add: fatal_def t_Fatal_def reported_def)

lemma andThen_assoc: "andThen (andThen m f) g = andThen m (\<lambda>x. andThen (f x) g)"
  by (rule ext) (simp add: andThen_def split: prod.splits outcome.splits)

lemma andThen_on_req: "andThen (on_req f) g (h, t) = g () (f h, t)"
  by (simp add: andThen_def on_req_def)

lemma with_request_run:
  assumes "i < length (requests tester)"
    and "m (requests tester ! i, tb tester) = (out, (h', t'))"
  shows "with_request i m tester =
           (out, tester\<lparr>tb := t', requests := (requests tester)[i := h']\<rparr>)"
  using assms by (simp add: with_request_def)

subsection \<open>What the code leaves alone\<close>

lemma keepsD: "keeps f m \<Longrightarrow> m (h, t) = (out, (h', t')) \<Longrightarrow> f h' = f h"
  unfolding keeps_def by blast

lemma keeps_ret: "keeps f (ret x)"
  by (simp add: keeps_def ret_def)

lemma keeps_Panic: "keeps f (\<lambda>s. (Panic, s))"
  by (simp add: keeps_def)

lemma keeps_get_req: "keeps f get_req"
  by (simp add: keeps_def get_req_def)

lemma keeps_on_t: "keeps f (on_t m)"
  by (auto simp add: keeps_def on_t_def split: prod.splits)

lemma keeps_on_req: "(\<And>h. f (g h) = f h) \<Longrightarrow> keeps f (on_req g)"
  by (auto simp add: keeps_def on_req_def)

lemma keeps_andThen:
  assumes "keeps f m" and "\<And>x. keeps f (g x)"
  shows "keeps f (andThen m g)"
  unfolding keeps_def
proof (intro allI impI)
  fix h t out h' t'
  assume run: "andThen m g (h, t) = (out, (h', t'))"
  obtain out1 h1 t1 where m: "m (h, t) = (out1, (h1, t1))"
    by (metis prod.exhaust)
  note m1 = keepsD [OF assms(1) m]
  show "f h' = f h"
  proof (cases out1)
    case (Returned x)
    with run m have "g x (h1, t1) = (out, (h', t'))"
      by (simp add: andThen_def)
    from keepsD [OF assms(2) this] m1 show ?thesis by simp
  next
    case Fatal
    with run m m1 show ?thesis by (simp add: andThen_def)
  next
    case Panic
    with run m m1 show ?thesis by (simp add: andThen_def)
  qed
qed

lemma keeps_prod: "(\<And>a b. keeps f (g a b)) \<Longrightarrow> keeps f (case p of (a, b) \<Rightarrow> g a b)"
  by (cases p) simp

lemma keeps_option:
  "keeps f a \<Longrightarrow> (\<And>y. keeps f (g y)) \<Longrightarrow> keeps f (case x of None \<Rightarrow> a | Some y \<Rightarrow> g y)"
  by (cases x) simp_all

lemma keeps_if: "keeps f a \<Longrightarrow> keeps f b \<Longrightarrow> keeps f (if c then a else b)"
  by simp

lemmas keeps_intros =
  keeps_ret keeps_Panic keeps_get_req keeps_on_t keeps_on_req
  keeps_andThen keeps_prod keeps_option keeps_if

lemma keeps_set_multipart_flags: "keeps (\<lambda>h. (done' h, stack h)) (set_multipart st)"
  unfolding set_multipart_def by (intro keeps_intros) simp

lemma keeps_multipart_flags: "keeps (\<lambda>h. (done' h, stack h)) (multipart L)"
  unfolding multipart_def by (intro keeps_intros) simp

lemma keeps_apply_option_flags: "keeps (\<lambda>h. (done' h, stack h)) (apply_option L opt)"
  by (cases opt)
     (simp_all, (intro keeps_intros keeps_multipart_flags keeps_set_multipart_flags; simp)+)

lemma keeps_apply_options_flags: "keeps (\<lambda>h. (done' h, stack h)) (apply_options L options)"
  by (induction options) (simp_all add: keeps_ret keeps_andThen keeps_apply_option_flags)

lemma keeps_finalise_flags: "keeps (\<lambda>h. (done' h, stack h)) (finalise L)"
  unfolding finalise_def
  by (intro keeps_intros keeps_set_multipart_flags; simp)

lemma keeps_set_multipart_URL: "keeps (\<lambda>h. URL (request h)) (set_multipart st)"
  unfolding set_multipart_def by (intro keeps_intros) simp

lemma keeps_multipart_URL: "keeps (\<lambda>h. URL (request h)) (multipart L)"
  unfolding multipart_def by (intro keeps_intros) simp

lemma keeps_apply_option_URL: "keeps (\<lambda>h. URL (request h)) (apply_option L opt)"
  by (cases opt)
     (simp_all, (intro keeps_intros keeps_multipart_URL keeps_set_multipart_URL; simp)+)

lemma keeps_apply_options_URL: "keeps (\<lambda>h. URL (request h)) (apply_options L options)"
  by (induction options) (simp_all add: keeps_ret keeps_andThen keeps_apply_option_URL)

subsection \<open>JSON\<close>

lemma MustParseJson_ok:
  "data \<noteq> [] \<Longrightarrow> json_Unmarshal L data = Inr body \<Longrightarrow>
   MustParseJson L (strings_NewReader data) extra t = (Returned body, t)"
  by (simp add: MustParseJson_def io_ReadAll_def strings_NewReader_def proc_simps)

lemma JsonContains_ok:
  "data \<noteq> [] \<Longrightarrow> json_Unmarshal L data = Inr body \<Longrightarrow> NewEvaluable L pathexpr = Inr path \<Longrightarrow>
   JsonContains L data pathexpr extra t =
     (case path body of
        (captured, None) \<Rightarrow> (Returned captured, t)
      | (captured, Some e) \<Rightarrow>
          (Fatal, reported L (VError e)
                    [VString ''failed to capture JSON path'', VString pathexpr,
                     VString ''full data'', body] t))"
  by (simp add: JsonContains_def MustParseJson_ok DataContains_def proc_simps
        split: prod.splits option.splits)

section \<open>Parsing and querying JSON\<close>

text \<open>
  C8. For every input whose content is the empty string, \<open>MustParseJson\<close> reports a
  failure and returns no value: the reporter gets exactly one more message, which is
  "cannot JSON parse an empty string" followed by the extra arguments when the reader
  ended cleanly, and the error of the reader otherwise. The decoder is not consulted.
\<close>

theorem MustParseJson_empty:
  "MustParseJson L ([], rerr) extra t =
     (Fatal, t\<lparr>fatals := fatals t @
        [strings_Join ((case rerr of
                          None \<Rightarrow> ''cannot JSON parse an empty string''
                        | Some e \<Rightarrow> format L (VError e))
                       # map (format L) extra) ''\<newline>'']\<rparr>)"
  by (cases rerr) (simp_all add: MustParseJson_def io_ReadAll_def proc_simps format_def)

text \<open>
  C3. Let \<open>data\<close> be a JSON document (not empty, and the decoder accepts it as
  \<open>body\<close>) and \<open>pathexpr\<close> a path expression (the evaluator compiles it to
  \<open>path\<close>). If the path resolves to a string, \<open>JsonContainsStr\<close> returns that string
  and reports nothing. If it resolves to a value that is not a string, one failure is
  reported, made of the text "jsonpath does not resolve to a string value", the path,
  the resolved value, the full document and the extra arguments. If the evaluator
  returns an error, one failure is reported, made of the error of the evaluator, the
  text "failed to capture JSON path", the path and the decoded document.
\<close>

theorem JsonContainsStr_cases:
  assumes "data \<noteq> []"
    and "json_Unmarshal L data = Inr body"
    and "NewEvaluable L pathexpr = Inr path"
  shows "JsonContainsStr L data pathexpr extra t =
     (case path body of
        (v, Some e) \<Rightarrow>
          (Fatal, t\<lparr>fatals := fatals t @
             [strings_Join [format L (VError e), ''failed to capture JSON path'', pathexpr,
                            ''full data'', format L body] ''\<newline>'']\<rparr>)
      | (v, None) \<Rightarrow>
          (case v of
             VString s \<Rightarrow> (Returned s, t)
           | _ \<Rightarrow>
               (Fatal, t\<lparr>fatals := fatals t @
                  [strings_Join (''jsonpath does not resolve to a string value''
                     # ''path'' # pathexpr # ''val'' # format L v # ''full data'' # data
                     # map (format L) extra) ''\<newline>'']\<rparr>)))"
proof -
  obtain v err where pb: "path body = (v, err)"
    by (metis prod.exhaust)
  show ?thesis
  proof (cases err)
    case (Some e)
    with pb show ?thesis
      by (simp add: JsonContainsStr_def andThen_def JsonContains_ok [OF assms]
            reported_def format_def)
  next
    case None
    with pb show ?thesis
      by (cases v)
         (simp_all add: JsonContainsStr_def andThen_def JsonContains_ok [OF assms]
            proc_simps format_def)
  qed
qed

theorem JsonContainsStr_cases_witness:
  \<open>''{"id":"7"}'' \<noteq> []
   \<and> json_Unmarshal example_lib ''{"id":"7"}'' = Inr (VMap [(''id'', VString ''7'')])
   \<and> json_Unmarshal example_lib ''{"id":true}'' = Inr (VMap [(''id'', VBool True)])
   \<and> NewEvaluable example_lib ''$.id'' = Inr (example_evaluable ''id'')
   \<and> NewEvaluable example_lib ''$.name'' = Inr (example_evaluable ''name'')
   \<and> JsonContainsStr example_lib ''{"id":"7"}'' ''$.id'' [] example_tb
       = (Returned ''7'', example_tb)
   \<and> JsonContainsStr example_lib ''{"id":true}'' ''$.id'' [] example_tb
       = (Fatal, example_tb\<lparr>fatals :=
           [''jsonpath does not resolve to a string value\<newline>path\<newline>$.id\<newline>val\<newline>true\<newline>full data\<newline>{"id":true}'']\<rparr>)
   \<and> JsonContainsStr example_lib ''{"id":"7"}'' ''$.name'' [] example_tb
       = (Fatal, example_tb\<lparr>fatals :=
           [''unknown key name\<newline>failed to capture JSON path\<newline>$.name\<newline>full data\<newline><value>'']\<rparr>)\<close>
proof -
  have d1: \<open>''{"id":"7"}'' \<noteq> []\<close> and d2: \<open>''{"id":true}'' \<noteq> []\<close> by simp_all
  have u1: \<open>json_Unmarshal example_lib ''{"id":"7"}'' = Inr (VMap [(''id'', VString ''7'')])\<close>
    and u2: \<open>json_Unmarshal example_lib ''{"id":true}'' = Inr (VMap [(''id'', VBool True)])\<close>
    by (simp_all add: example_lib_def)
  have p1: "NewEvaluable example_lib ''$.id'' = Inr (example_evaluable ''id'')"
    and p2: "NewEvaluable example_lib ''$.name'' = Inr (example_evaluable ''name'')"
    by (simp_all add: example_lib_def)
  show ?thesis
    using d1 u1 u2 p1 p2
      JsonContainsStr_cases [OF d1 u1 p1, of "[]" example_tb]
      JsonContainsStr_cases [OF d2 u2 p1, of "[]" example_tb]
      JsonContainsStr_cases [OF d1 u1 p2, of "[]" example_tb]
    by (simp add: example_evaluable_def example_tb_def format_def example_lib_def)
qed

text \<open>
  C4. Let \<open>data\<close> be a JSON document and \<open>pathexpr\<close> a path expression, as in C3.
  \<open>JsonNotContains\<close> returns without a report exactly when the evaluator returns an
  error for the path on the document. When the evaluator returns a value without an
  error, one failure is reported, made of the text "did not expect JSON path to exist",
  the path and the matched value.
\<close>

theorem JsonNotContains_silent_iff:
  assumes "data \<noteq> []"
    and "json_Unmarshal L data = Inr body"
    and "NewEvaluable L pathexpr = Inr path"
  shows "((\<exists>r. JsonNotContains L data pathexpr extra t = (Returned r, t))
            \<longleftrightarrow> snd (path body) \<noteq> None)
       \<and> JsonNotContains L data pathexpr extra t =
           (case path body of
              (captured, Some e) \<Rightarrow> (Returned captured, t)
            | (captured, None) \<Rightarrow>
                (Fatal, t\<lparr>fatals := fatals t @
                   [strings_Join [''did not expect JSON path to exist'', ''path'', pathexpr,
                                  ''matched'', format L captured] ''\<newline>'']\<rparr>))"
  using assms
  by (cases "path body")
     (auto simp add: JsonNotContains_def MustParseJson_ok proc_simps format_def)

theorem JsonNotContains_silent_iff_witness:
  \<open>''{"id":"7"}'' \<noteq> []
   \<and> json_Unmarshal example_lib ''{"id":"7"}'' = Inr (VMap [(''id'', VString ''7'')])
   \<and> NewEvaluable example_lib ''$.id'' = Inr (example_evaluable ''id'')
   \<and> NewEvaluable example_lib ''$.name'' = Inr (example_evaluable ''name'')
   \<and> JsonNotContains example_lib ''{"id":"7"}'' ''$.name'' [] example_tb
       = (Returned VNil, example_tb)
   \<and> JsonNotContains example_lib ''{"id":"7"}'' ''$.id'' [] example_tb
       = (Fatal, example_tb\<lparr>fatals :=
           [''did not expect JSON path to exist\<newline>path\<newline>$.id\<newline>matched\<newline>7'']\<rparr>)\<close>
proof -
  have d1: \<open>''{"id":"7"}'' \<noteq> []\<close> by simp
  have u1: \<open>json_Unmarshal example_lib ''{"id":"7"}'' = Inr (VMap [(''id'', VString ''7'')])\<close>
    by (simp add: example_lib_def)
  have p1: "NewEvaluable example_lib ''$.id'' = Inr (example_evaluable ''id'')"
    and p2: "NewEvaluable example_lib ''$.name'' = Inr (example_evaluable ''name'')"
    by (simp_all add: example_lib_def)
  show ?thesis
    using d1 u1 p1 p2
      JsonNotContains_silent_iff [OF d1 u1 p2, of "[]" example_tb]
      JsonNotContains_silent_iff [OF d1 u1 p1, of "[]" example_tb]
    by (simp add: example_evaluable_def example_tb_def format_def)
qed

section \<open>The life of a request\<close>

lemma Test_prepare_run:
  "Test_prepare L srv extra (h, t) =
     (case finalise L (h\<lparr>done' := True\<rparr>, t) of
        (Returned u, (h2, t2)) \<Rightarrow>
          (case URL (request h2) of
             None \<Rightarrow> (Panic, (h2, t2))
           | Some url \<Rightarrow>
               (case URL_Parse L url (srv @ url) of
                  Inl e \<Rightarrow>
                    (Fatal, (h2\<lparr>request := (request h2)\<lparr>URL := None\<rparr>\<rparr>,
                             reported L (VError e) extra t2))
                | Inr u \<Rightarrow>
                    (Returned ((request h2)\<lparr>URL := Some u\<rparr>),
                     (h2\<lparr>request := (request h2)\<lparr>URL := Some u\<rparr>\<rparr>, t2))))
      | (Fatal, s) \<Rightarrow> (Fatal, s)
      | (Panic, s) \<Rightarrow> (Panic, s))"
proof -
  obtain out h2 t2 where f: "finalise L (h\<lparr>done' := True\<rparr>, t) = (out, (h2, t2))"
    by (metis prod.exhaust)
  show ?thesis
    unfolding Test_prepare_def andThen_on_req
    by (cases out)
       (simp_all add: f andThen_def [of "finalise L"] andThen_def get_req_def on_req_def
          on_t_def must_ok_def must_def ret_def fatal_run Let_def
          split: option.splits sum.splits)
qed

lemma Test_prepare_flags:
  assumes "Test_prepare L srv extra (h, t) = (out, (h', t'))"
  shows "done' h' \<and> stack h' = stack h"
proof -
  obtain out2 h2 t2 where f: "finalise L (h\<lparr>done' := True\<rparr>, t) = (out2, (h2, t2))"
    by (metis prod.exhaust)
  from keepsD [OF keeps_finalise_flags f] have "done' h2 \<and> stack h2 = stack h"
    by simp
  with assms f show ?thesis
    by (cases out2) (auto simp add: Test_prepare_run split: option.splits sum.splits)
qed

lemma Test_request_flags:
  assumes "Test_request L maxOut srv e extra (h, t) = (out, (h', t'))"
  shows "done' h' \<and> stack h' = stack h"
proof -
  obtain out1 h1 t1 where p: "Test_prepare L srv extra (h, t) = (out1, (h1, t1))"
    by (metis prod.exhaust)
  note d = Test_prepare_flags [OF p]
  show ?thesis
  proof (cases out1)
    case (Returned r)
    with assms p have "h' = h1"
      by (auto simp add: Test_request_def andThen_def [of "Test_prepare _ _ _"] on_t_def
            split: prod.splits)
    with d show ?thesis by simp
  next
    case Fatal
    with assms p d show ?thesis by (simp add: Test_request_def andThen_def)
  next
    case Panic
    with assms p d show ?thesis by (simp add: Test_request_def andThen_def)
  qed
qed

lemma cleanup_loop_all_done:
  "\<forall>r\<in>set rs. done' r \<Longrightarrow> cleanup_loop L (rs @ rest) t = cleanup_loop L rest t"
  by (induction rs) (simp_all add: andThen_def ret_def)

lemma cleanup_loop_pending:
  "\<not> done' r \<Longrightarrow>
   cleanup_loop L (r # rest) t = (Fatal, t\<lparr>fatals := fatals t @ [forgot (stack r)]\<rparr>)"
  by (simp add: proc_simps format_def forgot_def)

lemma cleanup_loop_cases:
  "cleanup_loop L rs t = (Returned (), t) \<and> (\<forall>r\<in>set rs. done' r)
   \<or> (\<exists>j<length rs. \<not> done' (rs ! j) \<and>
         cleanup_loop L rs t = (Fatal, t\<lparr>fatals := fatals t @ [forgot (stack (rs ! j))]\<rparr>))"
proof (induction rs)
  case Nil
  show ?case by (simp add: ret_def)
next
  case (Cons r rs)
  show ?case
  proof (cases "done' r")
    case False
    then show ?thesis
      using cleanup_loop_pending [of r L rs t] by (intro disjI2 exI [of _ 0]) simp
  next
    case True
    then have step: "cleanup_loop L (r # rs) t = cleanup_loop L rs t"
      by (simp add: andThen_def ret_def)
    from Cons.IH show ?thesis
    proof
      assume "cleanup_loop L rs t = (Returned (), t) \<and> (\<forall>r\<in>set rs. done' r)"
      with True step show ?thesis by simp
    next
      assume "\<exists>j<length rs. \<not> done' (rs ! j) \<and>
         cleanup_loop L rs t = (Fatal, t\<lparr>fatals := fatals t @ [forgot (stack (rs ! j))]\<rparr>)"
      then obtain j where "j < length rs" "\<not> done' (rs ! j)"
        "cleanup_loop L rs t = (Fatal, t\<lparr>fatals := fatals t @ [forgot (stack (rs ! j))]\<rparr>)"
        by blast
      with step show ?thesis
        by (intro disjI2 exI [of _ "Suc j"]) simp
    qed
  qed
qed

lemmas run_simps =
  example_lib_def example_evaluable_def example_tb_def New_def New_cleanup_def Request_def
  Header_def Bearer_def MultipartFormField_def MultipartFormFile_def multipart_def io_Copy_def
  Header_Set_def Header_Get_def with_t_def with_request_def Test_def Test_request_def
  Test_prepare_def Test_exchange_def Test_checks_def finalise_def truncated_def slice_to_def
  fbrmath_Min_def MaxReqRespOutput_def Expect_def ExpectCode_def ExpectJsonExists_def
  addExpectation_def equals_def t_Log_def
  JsonContainsStr_def JsonContains_def MustParseJson_def DataContains_def
  io_ReadAll_def strings_NewReader_def format_def proc_simps rstate_simps Let_def

text \<open>
  C1, amended. Let \<open>(method, path)\<close> be valid, that is, \<open>http.NewRequest\<close> accepts it,
  and let every request that the tester holds so far be executed. After \<open>Request\<close>,
  whatever options it was given and whether or not one of them stopped the test, the
  cleanup that \<open>New\<close> registered reports exactly one failure, and its message is "forgot
  to execute Test on test request at:", the stack recorded by \<open>Request\<close>, and a line
  end. The condition on the earlier requests is needed: the cleanup stops at its first
  report, so it names only the first request that was not executed.
\<close>

theorem Request_never_tested:
  assumes "http_NewRequest L method path = Inr req"
    and "\<forall>r\<in>set (requests h). done' r"
    and "Request L method path stk options h = (out, h1)"
  shows "New_cleanup L h1 =
           (Fatal, h1\<lparr>tb := (tb h1)\<lparr>fatals := fatals (tb h1) @
              [''forgot to execute Test on test request at:\<newline>'' @ stk @ ''\<newline>'']\<rparr>\<rparr>)"
proof -
  let ?new = "\<lparr>request = req, done' = False, stack = stk,
               multipartForm = None, multipartFormBuffer = []\<rparr> :: 'a HttpTesterRequest"
  let ?h0 = "h\<lparr>requests := requests h @ [?new]\<rparr>"
  obtain out' h' t' where opts: "apply_options L options (?new, tb h) = (out', (h', t'))"
    by (metis prod.exhaust)
  from keepsD [OF keeps_apply_options_flags opts]
  have new: "\<not> done' h'" "stack h' = stk" by simp_all
  have stored: "with_request (length (requests h)) (apply_options L options) ?h0 =
                  (out', ?h0\<lparr>tb := t', requests := (requests ?h0)[length (requests h) := h']\<rparr>)"
    by (rule with_request_run) (simp_all add: opts)
  have "requests h1 = requests h @ [h']"
    using assms(1,3) stored
    by (cases out') (auto simp add: Request_def andThen_def with_t_def ret_def must_ok_def must_def)
  then have "cleanup_loop L (requests h1) (tb h1) = cleanup_loop L [h'] (tb h1)"
    using assms(2) by (simp only: cleanup_loop_all_done)
  also have "\<dots> = (Fatal, (tb h1)\<lparr>fatals := fatals (tb h1) @ [forgot stk]\<rparr>)"
    using new cleanup_loop_pending [of h' L "[]" "tb h1"] by simp
  finally show ?thesis
    by (simp add: New_cleanup_def with_t_def forgot_def)
qed

theorem Request_never_tested_witness:
  "http_NewRequest example_lib ''GET'' ''/users''
     = Inr \<lparr>Method = ''GET'', URL = Some ''/users'', ReqHeader = Map.empty, ReqBody = None\<rparr>
   \<and> requests (New example_tb ''http://srv'' :: string list HttpTester) = []
   \<and> fst (Request example_lib ''GET'' ''/users'' ''users_test.go:12'' [Bearer ''token'']
            (New example_tb ''http://srv'')) = Returned 0
   \<and> fatals (tb (snd (New_cleanup example_lib
        (snd (Request example_lib ''GET'' ''/users'' ''users_test.go:12'' [Bearer ''token'']
               (New example_tb ''http://srv''))))))
       = [''forgot to execute Test on test request at:\<newline>users_test.go:12\<newline>'']"
proof -
  have valid: "http_NewRequest example_lib ''GET'' ''/users''
     = Inr \<lparr>Method = ''GET'', URL = Some ''/users'', ReqHeader = Map.empty, ReqBody = None\<rparr>"
    by (simp add: example_lib_def)
  have fresh: "\<forall>r\<in>set (requests (New example_tb ''http://srv'' :: string list HttpTester)). done' r"
    by (simp add: New_def)
  have run: "Request example_lib ''GET'' ''/users'' ''users_test.go:12'' [Bearer ''token'']
            (New example_tb ''http://srv'')
     = (Returned 0,
        \<lparr>tb = example_tb, srv_URL = ''http://srv'',
         requests = [\<lparr>request = \<lparr>Method = ''GET'', URL = Some ''/users'',
                                   ReqHeader = [''Authorization'' \<mapsto> [''Bearer token'']],
                                   ReqBody = None\<rparr>,
                      done' = False, stack = ''users_test.go:12'',
                      multipartForm = None, multipartFormBuffer = []\<rparr>]\<rparr>)"
    by (simp add: run_simps)
  show ?thesis
    using valid fresh Request_never_tested [OF valid fresh run]
    by (simp add: run [unfolded example_tb_def New_def] example_tb_def New_def)
qed

text \<open>
  C1, with an earlier request still pending. Two requests are built, \<open>/a\<close> and then
  \<open>/b\<close>, both with valid pairs, and \<open>Test\<close> is called on neither. The cleanup reports
  exactly one failure. It names the stack of \<open>/a\<close>: \<open>Fatal\<close> stops the loop there, and
  the stack recorded for \<open>/b\<close> is not in the message.
\<close>

theorem Request_never_tested_counterexample:
  "Request example_lib ''GET'' ''/a'' ''a_test.go:5'' [] (New example_tb ''http://srv'')
     = (Returned 0,
        \<lparr>tb = example_tb, srv_URL = ''http://srv'',
          requests =
            [\<lparr>request = \<lparr>Method = ''GET'', URL = Some ''/a'', ReqHeader = Map.empty,
                           ReqBody = None\<rparr>,
              done' = False, stack = ''a_test.go:5'',
              multipartForm = None :: string list option, multipartFormBuffer = []\<rparr>]\<rparr>)
   \<and> http_NewRequest example_lib ''GET'' ''/b''
     = Inr \<lparr>Method = ''GET'', URL = Some ''/b'', ReqHeader = Map.empty, ReqBody = None\<rparr>
   \<and> Request example_lib ''GET'' ''/b'' ''b_test.go:9'' []
        \<lparr>tb = example_tb, srv_URL = ''http://srv'',
          requests =
            [\<lparr>request = \<lparr>Method = ''GET'', URL = Some ''/a'', ReqHeader = Map.empty,
                           ReqBody = None\<rparr>,
              done' = False, stack = ''a_test.go:5'',
              multipartForm = None :: string list option, multipartFormBuffer = []\<rparr>]\<rparr>
     = (Returned 1,
        \<lparr>tb = example_tb, srv_URL = ''http://srv'',
          requests =
            [\<lparr>request = \<lparr>Method = ''GET'', URL = Some ''/a'', ReqHeader = Map.empty,
                           ReqBody = None\<rparr>,
              done' = False, stack = ''a_test.go:5'',
              multipartForm = None, multipartFormBuffer = []\<rparr>,
             \<lparr>request = \<lparr>Method = ''GET'', URL = Some ''/b'', ReqHeader = Map.empty,
                           ReqBody = None\<rparr>,
              done' = False, stack = ''b_test.go:9'',
              multipartForm = None, multipartFormBuffer = []\<rparr>]\<rparr>)
   \<and> fatals (tb (snd (New_cleanup example_lib
        \<lparr>tb = example_tb, srv_URL = ''http://srv'',
          requests =
            [\<lparr>request = \<lparr>Method = ''GET'', URL = Some ''/a'', ReqHeader = Map.empty,
                           ReqBody = None\<rparr>,
              done' = False, stack = ''a_test.go:5'',
              multipartForm = None :: string list option, multipartFormBuffer = []\<rparr>,
             \<lparr>request = \<lparr>Method = ''GET'', URL = Some ''/b'', ReqHeader = Map.empty,
                           ReqBody = None\<rparr>,
              done' = False, stack = ''b_test.go:9'',
              multipartForm = None, multipartFormBuffer = []\<rparr>]\<rparr>)))
     = [''forgot to execute Test on test request at:\<newline>a_test.go:5\<newline>'']
   \<and> strings_Index ''forgot to execute Test on test request at:\<newline>a_test.go:5\<newline>''
         ''b_test.go:9'' = - 1"
  by (simp add: run_simps)

text \<open>
  C10. Let the expectation point to a request of the tester. Whatever the outcome of
  \<open>Test\<close> (it returned, it was stopped by \<open>Fatal\<close> at any of its steps, or it
  panicked), the request has \<open>done\<close> set afterwards and the other requests are as they
  were. So the cleanup after \<open>Test\<close> either reports nothing or reports another request,
  one that was not executed before \<open>Test\<close> either.
\<close>

theorem Test_sets_done:
  assumes "request_ptr e < length (requests h)"
    and "Test L maxOut e extra h = (out, h1)"
  shows "done' (requests h1 ! request_ptr e)
       \<and> length (requests h1) = length (requests h)
       \<and> (\<forall>j<length (requests h). j \<noteq> request_ptr e \<longrightarrow> requests h1 ! j = requests h ! j)
       \<and> (New_cleanup L h1 = (Returned (), h1)
          \<or> (\<exists>j<length (requests h). j \<noteq> request_ptr e \<and> \<not> done' (requests h ! j) \<and>
                New_cleanup L h1 =
                  (Fatal, h1\<lparr>tb := (tb h1)\<lparr>fatals := fatals (tb h1) @
                     [''forgot to execute Test on test request at:\<newline>''
                      @ stack (requests h ! j) @ ''\<newline>'']\<rparr>\<rparr>)))"
proof -
  let ?i = "request_ptr e"
  obtain out' h' t' where run:
    "Test_request L maxOut (srv_URL h) e extra (requests h ! ?i, tb h) = (out', (h', t'))"
    by (metis prod.exhaust)
  from Test_request_flags [OF run] have d: "done' h'" by simp
  from with_request_run [of "request_ptr e" h "Test_request L maxOut (srv_URL h) e extra",
      OF assms(1) run] assms(2)
  have h1: "h1 = h\<lparr>tb := t', requests := (requests h)[?i := h']\<rparr>"
    by (simp add: Test_def)
  have a: "done' (requests h1 ! ?i)" using h1 assms(1) d by simp
  have b: "length (requests h1) = length (requests h)" using h1 by simp
  have c: "\<forall>j<length (requests h). j \<noteq> ?i \<longrightarrow> requests h1 ! j = requests h ! j"
    using h1 by simp
  from cleanup_loop_cases [of L "requests h1" "tb h1"]
  have "New_cleanup L h1 = (Returned (), h1)
          \<or> (\<exists>j<length (requests h). j \<noteq> ?i \<and> \<not> done' (requests h ! j) \<and>
                New_cleanup L h1 =
                  (Fatal, h1\<lparr>tb := (tb h1)\<lparr>fatals := fatals (tb h1) @
                     [''forgot to execute Test on test request at:\<newline>''
                      @ stack (requests h ! j) @ ''\<newline>'']\<rparr>\<rparr>))"
  proof
    assume "cleanup_loop L (requests h1) (tb h1) = (Returned (), tb h1)
            \<and> (\<forall>r\<in>set (requests h1). done' r)"
    then show ?thesis by (simp add: New_cleanup_def with_t_def)
  next
    assume "\<exists>j<length (requests h1). \<not> done' (requests h1 ! j) \<and>
         cleanup_loop L (requests h1) (tb h1) =
           (Fatal, (tb h1)\<lparr>fatals := fatals (tb h1) @ [forgot (stack (requests h1 ! j))]\<rparr>)"
    then obtain j where j: "j < length (requests h1)" "\<not> done' (requests h1 ! j)"
      "cleanup_loop L (requests h1) (tb h1) =
           (Fatal, (tb h1)\<lparr>fatals := fatals (tb h1) @ [forgot (stack (requests h1 ! j))]\<rparr>)"
      by blast
    from j(2) a have ne: "j \<noteq> ?i" by auto
    with j(1) b c have same: "requests h1 ! j = requests h ! j" by simp
    have "j < length (requests h) \<and> j \<noteq> ?i \<and> \<not> done' (requests h ! j) \<and>
                New_cleanup L h1 =
                  (Fatal, h1\<lparr>tb := (tb h1)\<lparr>fatals := fatals (tb h1) @
                     [''forgot to execute Test on test request at:\<newline>''
                      @ stack (requests h ! j) @ ''\<newline>'']\<rparr>\<rparr>)"
      using j ne b same by (simp add: New_cleanup_def with_t_def forgot_def)
    then show ?thesis by blast
  qed
  with a b c show ?thesis by blast
qed

theorem Test_sets_done_witness:
  \<open>request_ptr (Expect 1 [ExpectCode example_lib 404])
     < length (requests \<lparr>tb = example_tb, srv_URL = ''http://srv'',
         requests =
           [\<lparr>request = \<lparr>Method = ''GET'', URL = Some ''/a'', ReqHeader = Map.empty,
                          ReqBody = None\<rparr>,
             done' = False, stack = ''a_test.go:5'',
             multipartForm = None :: string list option, multipartFormBuffer = []\<rparr>,
            \<lparr>request = \<lparr>Method = ''GET'', URL = Some ''/b'', ReqHeader = Map.empty,
                          ReqBody = None\<rparr>,
             done' = False, stack = ''b_test.go:9'',
             multipartForm = None, multipartFormBuffer = []\<rparr>]\<rparr>)
   \<and> Test example_lib MaxReqRespOutput (Expect 1 [ExpectCode example_lib 404]) []
       \<lparr>tb = example_tb, srv_URL = ''http://srv'',
         requests =
           [\<lparr>request = \<lparr>Method = ''GET'', URL = Some ''/a'', ReqHeader = Map.empty,
                          ReqBody = None\<rparr>,
             done' = False, stack = ''a_test.go:5'',
             multipartForm = None, multipartFormBuffer = []\<rparr>,
            \<lparr>request = \<lparr>Method = ''GET'', URL = Some ''/b'', ReqHeader = Map.empty,
                          ReqBody = None\<rparr>,
             done' = False, stack = ''b_test.go:9'',
             multipartForm = None, multipartFormBuffer = []\<rparr>]\<rparr>
     = (Fatal,
        \<lparr>tb = \<lparr>fatals =
           [''values are not equal\<newline>expected\<newline>404\<newline>actual\<newline>200\<newline>HTTP request:\<newline>GET http://srv/b\<newline>HTTP response:\<newline>{"id":"7"}''],
           logs = []\<rparr>,
         srv_URL = ''http://srv'',
         requests =
           [\<lparr>request = \<lparr>Method = ''GET'', URL = Some ''/a'', ReqHeader = Map.empty,
                          ReqBody = None\<rparr>,
             done' = False, stack = ''a_test.go:5'',
             multipartForm = None, multipartFormBuffer = []\<rparr>,
            \<lparr>request = \<lparr>Method = ''GET'', URL = Some ''http://srv/b'', ReqHeader = Map.empty,
                          ReqBody = None\<rparr>,
             done' = True, stack = ''b_test.go:9'',
             multipartForm = None, multipartFormBuffer = []\<rparr>]\<rparr>)
   \<and> fatals (tb (snd (New_cleanup example_lib
        \<lparr>tb = \<lparr>fatals =
           [''values are not equal\<newline>expected\<newline>404\<newline>actual\<newline>200\<newline>HTTP request:\<newline>GET http://srv/b\<newline>HTTP response:\<newline>{"id":"7"}''],
           logs = []\<rparr>,
         srv_URL = ''http://srv'',
         requests =
           [\<lparr>request = \<lparr>Method = ''GET'', URL = Some ''/a'', ReqHeader = Map.empty,
                          ReqBody = None\<rparr>,
             done' = False, stack = ''a_test.go:5'',
             multipartForm = None :: string list option, multipartFormBuffer = []\<rparr>,
            \<lparr>request = \<lparr>Method = ''GET'', URL = Some ''http://srv/b'', ReqHeader = Map.empty,
                          ReqBody = None\<rparr>,
             done' = True, stack = ''b_test.go:9'',
             multipartForm = None, multipartFormBuffer = []\<rparr>]\<rparr>)))
     = [''values are not equal\<newline>expected\<newline>404\<newline>actual\<newline>200\<newline>HTTP request:\<newline>GET http://srv/b\<newline>HTTP response:\<newline>{"id":"7"}'',
        ''forgot to execute Test on test request at:\<newline>a_test.go:5\<newline>'']\<close>
  (is "?ptr \<and> ?run \<and> ?cleanup")
proof -
  have ptr: ?ptr
    by (simp add: Expect_def ExpectCode_def addExpectation_def)
  have run: ?run
    by (simp add: run_simps)
  from Test_sets_done [OF ptr run] have ?cleanup
    by (simp add: run_simps)
  with ptr run show ?thesis by blast
qed

section \<open>Request options\<close>

lemma apply_options_append:
  "apply_options L (xs @ ys) = andThen (apply_options L xs) (\<lambda>_. apply_options L ys)"
proof (induction xs)
  case Nil
  show ?case by (rule ext) (simp add: andThen_def ret_def)
next
  case (Cons x xs)
  then show ?case by (simp add: andThen_assoc)
qed

lemma Header_twice:
  "apply_options L [Header name val1, Header name val2] = apply_options L [Header name val2]"
  by (rule ext) (auto simp add: Header_def proc_simps rstate_simps Header_Set_def)

text \<open>
  C6. In any list of options, two \<open>Header\<close> options in a row with the same name have
  the effect of the second alone: \<open>Request\<close> gives the same result with and without
  the first, so the first value is nowhere in the request. Right after the two options
  \<open>Get\<close> of that name on the header of the request is the second value.
\<close>

theorem Header_last_write_wins:
  "Request L method path stk (pre @ [Header name val1, Header name val2] @ post)
     = Request L method path stk (pre @ [Header name val2] @ post)
   \<and> Header_Get L (ReqHeader (request (fst (snd
        (apply_options L [Header name val1, Header name val2] (h, t)))))) name = val2"
proof
  have "apply_options L (pre @ [Header name val1, Header name val2] @ post)
      = apply_options L (pre @ [Header name val2] @ post)"
    by (simp only: apply_options_append Header_twice)
  then show "Request L method path stk (pre @ [Header name val1, Header name val2] @ post)
     = Request L method path stk (pre @ [Header name val2] @ post)"
    by (simp only: Request_def)
next
  show "Header_Get L (ReqHeader (request (fst (snd
        (apply_options L [Header name val1, Header name val2] (h, t)))))) name = val2"
    by (simp add: Header_def proc_simps rstate_simps Header_Set_def Header_Get_def)
qed

lemma JsonBody_string:
  "JsonBody L (VString s) args t = (Returned (JsonBodyOption s args), t)"
  by (simp add: JsonBody_def proc_simps)

lemma JsonBodyOption_run:
  "apply_option L (JsonBodyOption bodyStr args) (h, t) =
     (Returned (), (h\<lparr>request := (request h)
        \<lparr>ReqHeader := Header_Set L (ReqHeader (request h)) ''Content-Type'' ''application/json'',
         ReqBody := Some (fmt_Sprintf L bodyStr args)\<rparr>\<rparr>, t))"
  by (simp add: proc_simps rstate_simps)

text \<open>
  C2, for a reader. \<open>JsonBody\<close> reads the reader to the end and then loses what it
  read: the option it returns holds the JSON encoding of the reader itself, which is at
  its end, and holds the same for every content of the reader. (For a string the option
  holds the string, see \<open>JsonBody_string\<close>, and applying the option sets the body to
  the formatted string and the content type to \<open>application/json\<close>, see
  \<open>JsonBodyOption_run\<close>.)
\<close>

theorem JsonBody_reader:
  "JsonBody L (VReader content None) args t =
     (case json_MarshalIndent L (VReader [] None) of
        Inl e \<Rightarrow>
          (Fatal, t\<lparr>fatals := fatals t @
             [strings_Join [format L (VError e), ''cannot convert body data to JSON'',
                            format L (VReader [] None)] ''\<newline>'']\<rparr>)
      | Inr b \<Rightarrow> (Returned (JsonBodyOption b args), t))"
  by (simp add: JsonBody_def io_ReadAll_def proc_simps format_def split: sum.splits)

theorem JsonBody_reader_witness:
  \<open>JsonBody example_lib (VReader ''{"id":"7"}'' None) [] example_tb
     = (Returned (JsonBodyOption ''{}'' []), example_tb)
   \<and> JsonBody example_lib (VReader ''[1,2,3]'' None) [] example_tb
     = (Returned (JsonBodyOption ''{}'' []), example_tb)\<close>
  using JsonBody_reader [of example_lib \<open>''{"id":"7"}''\<close> "[]" example_tb]
    JsonBody_reader [of example_lib "''[1,2,3]''" "[]" example_tb]
  by (simp add: example_lib_def)

subsection \<open>Multipart forms\<close>

lemma apply_option_plain:
  assumes "\<not> is_multipart opt"
  shows "\<exists>h'. apply_option L opt (h, t) = (Returned (), (h', t))
            \<and> multipartForm h' = multipartForm h
            \<and> multipartFormBuffer h' = multipartFormBuffer h"
  using assms by (cases opt) (simp_all add: is_multipart_def proc_simps rstate_simps)

lemma multipart_run:
  "multipart L (h, t) = (Returned (mp_state L h), (put_mp (mp_state L h) h, t))"
  by (cases "multipartForm h")
     (simp_all add: multipart_def mp_state_def put_mp_def proc_simps rstate_simps)

lemma put_mp_put_mp [simp]: "put_mp st (put_mp st' h) = put_mp st h"
  by (simp add: put_mp_def)

lemma set_multipart_run: "set_multipart st (h, t) = (Returned (), (put_mp st h, t))"
  by (simp add: set_multipart_def on_req_def put_mp_def)

lemma two_writes_run:
  "andThen (multipart L) (\<lambda>st.
     case f st of (st1, err) \<Rightarrow>
       andThen (set_multipart st1) (\<lambda>_.
       andThen (on_t (must L err [])) (\<lambda>_.
       case g st1 of (st2, err) \<Rightarrow>
         andThen (set_multipart st2) (\<lambda>_.
         on_t (must L err []))))) (h, t) =
   (case two_writes L f g (mp_state L h) t of
      (out, st, t') \<Rightarrow> (out, (put_mp st h, t')))"
proof -
  obtain st1 e1 where f: "f (mp_state L h) = (st1, e1)" by (metis prod.exhaust)
  obtain st2 e2 where g: "g st1 = (st2, e2)" by (metis prod.exhaust)
  show ?thesis
    by (cases e1; cases e2)
       (simp_all add: andThen_def multipart_run set_multipart_run f g two_writes_def on_t_def
          must_def ret_def fatal_run)
qed

lemma apply_option_multipart_run:
  assumes "is_multipart opt"
  shows "\<exists>f g. \<forall>h t. apply_option L opt (h, t) =
           (case two_writes L f g (mp_state L h) t of
              (out, st, t') \<Rightarrow> (out, (put_mp st h, t')))"
proof (cases opt)
  case (MultipartFormFileOption fieldname filename data)
  show ?thesis
    unfolding MultipartFormFileOption apply_option.simps
    using two_writes_run [where f = "CreateFormFile L fieldname filename" and g = "io_Copy L data"]
    by blast
next
  case (MultipartFormFieldOption name val)
  show ?thesis
    unfolding MultipartFormFieldOption apply_option.simps
    using two_writes_run [where f = "CreateFormField L name" and g = "part_Write L val"]
    by blast
qed (use assms in \<open>simp_all add: is_multipart_def\<close>)

lemma mp_state_eq:
  "multipartForm k = multipartForm h \<Longrightarrow> multipartFormBuffer k = multipartFormBuffer h \<Longrightarrow>
   mp_state L k = mp_state L h"
  by (cases "multipartForm h") (simp_all add: mp_state_def)

lemma apply_option_multipart:
  assumes "is_multipart opt"
    and "mp_state L k = mp_state L h"
    and "apply_option L opt (h, t) = (out, (h', t'))"
  shows "\<exists>k'. apply_option L opt (k, t) = (out, (k', t'))
            \<and> multipartForm k' = multipartForm h'
            \<and> multipartFormBuffer k' = multipartFormBuffer h'
            \<and> multipartForm h' \<noteq> None"
proof -
  from apply_option_multipart_run [OF assms(1), of L] obtain f g where
    run: "\<And>h t. apply_option L opt (h, t) =
           (case two_writes L f g (mp_state L h) t of
              (out, st, t') \<Rightarrow> (out, (put_mp st h, t')))" by blast
  obtain o1 st1 t1 where tw: "two_writes L f g (mp_state L h) t = (o1, st1, t1)"
    by (metis prod.exhaust)
  from assms(3) have "out = o1" "h' = put_mp st1 h" "t' = t1"
    by (simp_all add: run tw)
  moreover have "apply_option L opt (k, t) = (o1, (put_mp st1 k, t1))"
    by (simp add: run assms(2) tw)
  ultimately show ?thesis
    by (simp add: put_mp_def)
qed

lemma apply_options_filter:
  assumes "apply_options L options (h, t) = (out, (h1, t1))"
    and "multipartForm k = multipartForm h" and "multipartFormBuffer k = multipartFormBuffer h"
  shows "\<exists>k1. apply_options L (filter is_multipart options) (k, t) = (out, (k1, t1))
            \<and> multipartForm k1 = multipartForm h1
            \<and> multipartFormBuffer k1 = multipartFormBuffer h1"
  using assms
proof (induction options arbitrary: h k t)
  case Nil
  then show ?case by (simp add: ret_def)
next
  case (Cons opt options)
  obtain o' h' t' where step: "apply_option L opt (h, t) = (o', (h', t'))"
    by (metis prod.exhaust)
  show ?case
  proof (cases "is_multipart opt")
    case False
    from apply_option_plain [OF False, of L h t] step
    have plain: "o' = Returned ()" "t' = t" "multipartForm h' = multipartForm h"
      "multipartFormBuffer h' = multipartFormBuffer h" by auto
    with Cons.prems(1) step have "apply_options L options (h', t) = (out, (h1, t1))"
      by (simp add: andThen_def)
    from Cons.IH [OF this, of k] plain Cons.prems(2,3) False show ?thesis by simp
  next
    case True
    from apply_option_multipart [OF True mp_state_eq [OF Cons.prems(2,3)] step]
    obtain k' where k': "apply_option L opt (k, t) = (o', (k', t'))"
      "multipartForm k' = multipartForm h'" "multipartFormBuffer k' = multipartFormBuffer h'"
      by blast
    show ?thesis
    proof (cases o')
      case (Returned u)
      with Cons.prems(1) step have "apply_options L options (h', t') = (out, (h1, t1))"
        by (simp add: andThen_def)
      from Cons.IH [OF this k'(2,3)] True k'(1) Returned show ?thesis
        by (simp add: andThen_def)
    next
      case Fatal
      with Cons.prems(1) step k' True show ?thesis by (simp add: andThen_def)
    next
      case Panic
      with Cons.prems(1) step k' True show ?thesis by (simp add: andThen_def)
    qed
  qed
qed

lemma apply_option_keeps_multipart:
  assumes "apply_option L opt (h, t) = (out, (h', t'))" and "multipartForm h \<noteq> None"
  shows "multipartForm h' \<noteq> None"
proof (cases "is_multipart opt")
  case True
  from apply_option_multipart [OF True refl assms(1)] show ?thesis by blast
next
  case False
  from apply_option_plain [OF False, of L h t] assms show ?thesis by auto
qed

lemma apply_options_keeps_multipart:
  assumes "apply_options L options (h, t) = (out, (h1, t1))" and "multipartForm h \<noteq> None"
  shows "multipartForm h1 \<noteq> None"
  using assms
proof (induction options arbitrary: h t)
  case Nil
  then show ?case by (simp add: ret_def)
next
  case (Cons opt options)
  obtain o' h' t' where step: "apply_option L opt (h, t) = (o', (h', t'))"
    by (metis prod.exhaust)
  note keep = apply_option_keeps_multipart [OF step Cons.prems(2)]
  show ?case
  proof (cases o')
    case (Returned u)
    with Cons.prems(1) step have "apply_options L options (h', t') = (out, (h1, t1))"
      by (simp add: andThen_def)
    from Cons.IH [OF this keep] show ?thesis .
  next
    case Fatal
    with Cons.prems(1) step keep show ?thesis by (simp add: andThen_def)
  next
    case Panic
    with Cons.prems(1) step keep show ?thesis by (simp add: andThen_def)
  qed
qed

lemma apply_options_multipart_used:
  assumes "apply_options L options (h, t) = (Returned (), (h1, t1))"
    and "\<exists>opt\<in>set options. is_multipart opt"
  shows "multipartForm h1 \<noteq> None"
  using assms
proof (induction options arbitrary: h t)
  case Nil
  then show ?case by simp
next
  case (Cons opt options)
  obtain o' h' t' where step: "apply_option L opt (h, t) = (o', (h', t'))"
    by (metis prod.exhaust)
  from Cons.prems(1) step have o': "o' = Returned ()"
    and rest: "apply_options L options (h', t') = (Returned (), (h1, t1))"
    by (cases o'; simp add: andThen_def)+
  show ?case
  proof (cases "is_multipart opt")
    case True
    from apply_option_multipart [OF True refl step] have "multipartForm h' \<noteq> None" by blast
    from apply_options_keeps_multipart [OF rest this] show ?thesis .
  next
    case False
    with Cons.prems(2) have "\<exists>opt\<in>set options. is_multipart opt" by simp
    from Cons.IH [OF rest this] show ?thesis .
  qed
qed

lemma finalise_multipart:
  assumes "multipartForm h = Some w"
  shows "finalise L (h, t) =
     (case multipart_Close L (w, multipartFormBuffer h) of
        (st, Some e) \<Rightarrow> (Fatal, (put_mp st h, reported L (VError e) [] t))
      | (st, None) \<Rightarrow>
          (Returned (),
           ((put_mp st h)\<lparr>request := (request h)
              \<lparr>ReqBody := Some (snd st),
               ReqHeader := Header_Set L (ReqHeader (request h)) ''Content-Type''
                              (FormDataContentType L (fst st))\<rparr>\<rparr>, t)))"
  using assms
  by (simp add: finalise_def andThen_def get_req_def set_multipart_run on_t_def on_req_def
        must_def ret_def fatal_run put_mp_def split: prod.splits option.splits)

section \<open>Checks of the response\<close>

text \<open>
  C7, for the empty string. Let the body be a JSON document in which the path resolves
  to the empty string. The check that \<open>ExpectJsonExists\<close> adds passes: it returns and
  reports nothing. (When the path does not resolve, or resolves to a value that is not a
  string, the check reports what \<open>JsonContainsStr\<close> reports.)
\<close>

theorem ExpectJsonExists_empty_string:
  assumes "body \<noteq> []"
    and "json_Unmarshal L body = Inr doc"
    and "NewEvaluable L path = Inr ev"
    and "ev doc = (VString [], None)"
  shows "run_expectations (responseExpectations (Expect ptr [ExpectJsonExists L path]))
           response body extra t = (Returned (), t)"
  using assms
  by (simp add: Expect_def ExpectJsonExists_def addExpectation_def JsonContainsStr_def
        JsonContains_def DataContains_def andThen_def MustParseJson_ok ret_def must_ok_def
        must_def)

theorem ExpectJsonExists_empty_string_witness:
  \<open>''{"id":""}'' \<noteq> []
   \<and> json_Unmarshal example_lib ''{"id":""}'' = Inr (VMap [(''id'', VString [])])
   \<and> NewEvaluable example_lib ''$.id'' = Inr (example_evaluable ''id'')
   \<and> example_evaluable ''id'' (VMap [(''id'', VString [])]) = (VString [], None)
   \<and> run_expectations
         (responseExpectations (Expect 0 [ExpectJsonExists example_lib ''$.id'']))
         \<lparr>StatusCode = 200, RespHeader = Map.empty, RespBody = (''{"id":""}'', None),
           RespBody_Close = None\<rparr>
         ''{"id":""}'' [] example_tb
       = (Returned (), example_tb)\<close>
proof -
  have d: \<open>''{"id":""}'' \<noteq> []\<close> by simp
  have u: \<open>json_Unmarshal example_lib ''{"id":""}'' = Inr (VMap [(''id'', VString [])])\<close>
    by (simp add: example_lib_def)
  have p: "NewEvaluable example_lib ''$.id'' = Inr (example_evaluable ''id'')"
    by (simp add: example_lib_def)
  have v: "example_evaluable ''id'' (VMap [(''id'', VString [])]) = (VString [], None)"
    by (simp add: example_evaluable_def)
  from ExpectJsonExists_empty_string [OF d u p v] d u p v show ?thesis
    by blast
qed

section \<open>The exchange with the server\<close>

lemma truncated_nonneg:
  "0 \<le> maxOut \<Longrightarrow> truncated maxOut data s = (Returned (take (nat maxOut) data), s)"
  by (auto simp add: truncated_def slice_to_def fbrmath_Min_def ret_def min_def)

lemma truncated_negative:
  "maxOut < 0 \<Longrightarrow> truncated maxOut data s = (Panic, s)"
  by (simp add: truncated_def slice_to_def fbrmath_Min_def min_def)

lemma Test_exchange_run:
  assumes "0 \<le> maxOut"
  shows "Test_exchange L maxOut r extra t =
     (let extra1 = extra @ dump_extra maxOut ''HTTP request:'' (DumpRequest L r) in
      case client_Do L r of
        Inl e \<Rightarrow> (Fatal, reported L (VError e) extra1 t)
      | Inr resp0 \<Rightarrow>
          (case RespBody resp0 of
             (body, Some e) \<Rightarrow> (Fatal, reported L (VError e) extra1 t)
           | (body, None) \<Rightarrow>
               (case RespBody_Close resp0 of
                  Some e \<Rightarrow> (Fatal, reported L (VError e) [] t)
                | None \<Rightarrow>
                    (let resp = resp0\<lparr>RespBody := (body, None), RespBody_Close := None\<rparr> in
                     (Returned (resp, body,
                        extra1 @ dump_extra maxOut ''HTTP response:'' (DumpResponse L resp)),
                      case DumpResponse L resp of
                        Inl e \<Rightarrow> t\<lparr>logs := logs t @ ([VError e] # [])\<rparr>
                      | Inr _ \<Rightarrow> t)))))"
  by (simp add: Test_exchange_def proc_simps truncated_nonneg [OF assms] io_ReadAll_def
        t_Log_def Let_def dump_extra_def
        split: sum.split prod.split option.split)

lemma Test_run:
  assumes "0 \<le> maxOut"
    and "request_ptr e < length (requests tester)"
  shows "Test L maxOut e extra tester =
     (case Test_prepare L (srv_URL tester) extra (requests tester ! request_ptr e, tb tester) of
        (Fatal, (h2, t2)) \<Rightarrow>
          (Fatal, tester\<lparr>tb := t2, requests := (requests tester)[request_ptr e := h2]\<rparr>)
      | (Panic, (h2, t2)) \<Rightarrow>
          (Panic, tester\<lparr>tb := t2, requests := (requests tester)[request_ptr e := h2]\<rparr>)
      | (Returned r, (h2, t2)) \<Rightarrow>
          (let stored = (\<lambda>t. tester\<lparr>tb := t, requests := (requests tester)[request_ptr e := h2]\<rparr>);
               extra1 = extra @ dump_extra maxOut ''HTTP request:'' (DumpRequest L r)
           in case client_Do L r of
                Inl err \<Rightarrow> (Fatal, stored (reported L (VError err) extra1 t2))
              | Inr resp0 \<Rightarrow>
                  (case RespBody resp0 of
                     (body, Some err) \<Rightarrow> (Fatal, stored (reported L (VError err) extra1 t2))
                   | (body, None) \<Rightarrow>
                       (case RespBody_Close resp0 of
                          Some err \<Rightarrow> (Fatal, stored (reported L (VError err) [] t2))
                        | None \<Rightarrow>
                            (let resp = resp0\<lparr>RespBody := (body, None), RespBody_Close := None\<rparr>;
                                 extra2 = extra1
                                   @ dump_extra maxOut ''HTTP response:'' (DumpResponse L resp);
                                 t3 = (case DumpResponse L resp of
                                         Inl err \<Rightarrow> t2\<lparr>logs := logs t2 @ ([VError err] # [])\<rparr>
                                       | Inr _ \<Rightarrow> t2)
                             in case Test_checks L e resp body extra2 t3 of
                                  (out, t4) \<Rightarrow> (out, stored t4))))))"
proof -
  obtain out h2 t2 where p:
    "Test_prepare L (srv_URL tester) extra (requests tester ! request_ptr e, tb tester)
       = (out, (h2, t2))"
    by (metis prod.exhaust)
  show ?thesis
  proof (cases out)
    case Fatal
    with p assms(2) show ?thesis
      by (simp add: Test_def with_request_def Test_request_def andThen_def)
  next
    case Panic
    with p assms(2) show ?thesis
      by (simp add: Test_def with_request_def Test_request_def andThen_def)
  next
    case (Returned r)
    with p assms(2) show ?thesis
      by (simp add: Test_def with_request_def Test_request_def andThen_def [of "Test_prepare _ _ _"]
            on_t_def andThen_def [of "Test_exchange _ _ _ _"] Test_exchange_run [OF assms(1)]
            Let_def split: sum.split prod.split option.split)
  qed
qed

section \<open>What Test sends\<close>

text \<open>
  C5. Let at least one of the options be a multipart field or file option, let the
  options have been applied to a request without a failure, and let \<open>Test\<close> run on that
  request (with a URL that resolves and a maximum for the dumps that is not negative).
  The request then holds a multipart writer \<open>w\<close>, and writer and buffer are those that
  the multipart options alone produce: a JSON body option or a header option, before or
  after them, changes neither. \<open>Test\<close> closes the writer. If closing fails, the test is
  stopped and nothing is sent. Otherwise the request that \<open>Test\<close> dumps and gives to the
  transport \<open>client_Do\<close> has as body the content \<open>payload\<close> of the buffer after the
  writer was closed, and as content type the one the closed writer gives, whatever body
  and content type the options had set; what \<open>Test\<close> does further is determined by the
  answer of the transport to that request.
\<close>

theorem multipart_overrides_body:
  assumes "\<exists>opt\<in>set options. is_multipart opt"
    and "apply_options L options (h, t) = (Returned (), (h1, t1))"
    and "request_ptr e < length (requests tester)"
    and "requests tester ! request_ptr e = h1"
    and "URL (request h1) = Some url"
    and "URL_Parse L url (srv_URL tester @ url) = Inr u"
    and "0 \<le> maxOut"
  shows "\<exists>w. multipartForm h1 = Some w
     \<and> (\<exists>k1. apply_options L (filter is_multipart options) (h, t) = (Returned (), (k1, t1))
            \<and> multipartForm k1 = Some w
            \<and> multipartFormBuffer k1 = multipartFormBuffer h1)
     \<and> (case multipart_Close L (w, multipartFormBuffer h1) of
          (st, Some err) \<Rightarrow>
            Test L maxOut e extra tester =
              (Fatal,
               tester\<lparr>tb := (tb tester)\<lparr>fatals := fatals (tb tester) @ [format L (VError err)]\<rparr>,
                      requests := (requests tester)[request_ptr e :=
                        h1\<lparr>done' := True, multipartForm := Some (fst st),
                           multipartFormBuffer := snd st\<rparr>]\<rparr>)
        | ((w', payload), None) \<Rightarrow>
            (let r = (request h1)
                   \<lparr>ReqBody := Some payload,
                    ReqHeader := (ReqHeader (request h1))
                      (CanonicalMIMEHeaderKey L ''Content-Type'' \<mapsto> [FormDataContentType L w']),
                    URL := Some u\<rparr>;
                 h2 = h1\<lparr>done' := True, multipartForm := Some w',
                         multipartFormBuffer := payload, request := r\<rparr>;
                 stored = (\<lambda>t. tester\<lparr>tb := t,
                                         requests := (requests tester)[request_ptr e := h2]\<rparr>);
                 extra1 = extra @ dump_extra maxOut ''HTTP request:'' (DumpRequest L r)
             in Test L maxOut e extra tester =
                (case client_Do L r of
                   Inl err \<Rightarrow> (Fatal, stored (reported L (VError err) extra1 (tb tester)))
                 | Inr resp0 \<Rightarrow>
                     (case RespBody resp0 of
                        (body, Some err) \<Rightarrow>
                          (Fatal, stored (reported L (VError err) extra1 (tb tester)))
                      | (body, None) \<Rightarrow>
                          (case RespBody_Close resp0 of
                             Some err \<Rightarrow> (Fatal, stored (reported L (VError err) [] (tb tester)))
                           | None \<Rightarrow>
                               (let resp = resp0\<lparr>RespBody := (body, None),
                                                 RespBody_Close := None\<rparr>;
                                    extra2 = extra1
                                      @ dump_extra maxOut ''HTTP response:'' (DumpResponse L resp);
                                    t3 = (case DumpResponse L resp of
                                            Inl err \<Rightarrow>
                                              (tb tester)\<lparr>logs := logs (tb tester) @ ([VError err] # [])\<rparr>
                                          | Inr _ \<Rightarrow> tb tester)
                                in case Test_checks L e resp body extra2 t3 of
                                     (out, t4) \<Rightarrow> (out, stored t4)))))))"
proof -
  let ?i = "request_ptr e"
  from apply_options_multipart_used [OF assms(2,1)]
  obtain w where w: "multipartForm h1 = Some w" by blast
  from apply_options_filter [OF assms(2) refl refl] w
  have filt: "\<exists>k1. apply_options L (filter is_multipart options) (h, t) = (Returned (), (k1, t1))
            \<and> multipartForm k1 = Some w
            \<and> multipartFormBuffer k1 = multipartFormBuffer h1"
    by auto
  obtain w' payload cerr where cl:
    "multipart_Close L (w, multipartFormBuffer h1) = ((w', payload), cerr)"
    by (metis prod.exhaust)
  have fin: "finalise L (h1\<lparr>done' := True\<rparr>, tb tester) =
     (case cerr of
        Some err \<Rightarrow>
          (Fatal, (put_mp (w', payload) (h1\<lparr>done' := True\<rparr>),
                   reported L (VError err) [] (tb tester)))
      | None \<Rightarrow>
          (Returned (),
           ((put_mp (w', payload) (h1\<lparr>done' := True\<rparr>))\<lparr>request := (request h1)
              \<lparr>ReqBody := Some payload,
               ReqHeader := Header_Set L (ReqHeader (request h1)) ''Content-Type''
                              (FormDataContentType L w')\<rparr>\<rparr>, tb tester)))"
    using w cl by (simp add: finalise_multipart [of "h1\<lparr>done' := True\<rparr>" w] split: option.splits)
  have main: "(case multipart_Close L (w, multipartFormBuffer h1) of
          (st, Some err) \<Rightarrow>
            Test L maxOut e extra tester =
              (Fatal,
               tester\<lparr>tb := (tb tester)\<lparr>fatals := fatals (tb tester) @ [format L (VError err)]\<rparr>,
                      requests := (requests tester)[request_ptr e :=
                        h1\<lparr>done' := True, multipartForm := Some (fst st),
                           multipartFormBuffer := snd st\<rparr>]\<rparr>)
        | ((w', payload), None) \<Rightarrow>
            (let r = (request h1)
                   \<lparr>ReqBody := Some payload,
                    ReqHeader := (ReqHeader (request h1))
                      (CanonicalMIMEHeaderKey L ''Content-Type'' \<mapsto> [FormDataContentType L w']),
                    URL := Some u\<rparr>;
                 h2 = h1\<lparr>done' := True, multipartForm := Some w',
                         multipartFormBuffer := payload, request := r\<rparr>;
                 stored = (\<lambda>t. tester\<lparr>tb := t,
                                         requests := (requests tester)[request_ptr e := h2]\<rparr>);
                 extra1 = extra @ dump_extra maxOut ''HTTP request:'' (DumpRequest L r)
             in Test L maxOut e extra tester =
                (case client_Do L r of
                   Inl err \<Rightarrow> (Fatal, stored (reported L (VError err) extra1 (tb tester)))
                 | Inr resp0 \<Rightarrow>
                     (case RespBody resp0 of
                        (body, Some err) \<Rightarrow>
                          (Fatal, stored (reported L (VError err) extra1 (tb tester)))
                      | (body, None) \<Rightarrow>
                          (case RespBody_Close resp0 of
                             Some err \<Rightarrow> (Fatal, stored (reported L (VError err) [] (tb tester)))
                           | None \<Rightarrow>
                               (let resp = resp0\<lparr>RespBody := (body, None),
                                                 RespBody_Close := None\<rparr>;
                                    extra2 = extra1
                                      @ dump_extra maxOut ''HTTP response:'' (DumpResponse L resp);
                                    t3 = (case DumpResponse L resp of
                                            Inl err \<Rightarrow>
                                              (tb tester)\<lparr>logs := logs (tb tester) @ ([VError err] # [])\<rparr>
                                          | Inr _ \<Rightarrow> tb tester)
                                in case Test_checks L e resp body extra2 t3 of
                                     (out, t4) \<Rightarrow> (out, stored t4)))))))"
  proof (cases cerr)
    case (Some err)
    then show ?thesis
      using assms(4)
      by (simp add: cl Test_run [OF assms(7,3)] Test_prepare_run fin put_mp_def reported_def)
  next
    case None
    then show ?thesis
      using assms(4,5,6)
      by (simp add: cl Test_run [OF assms(7,3)] Test_prepare_run fin put_mp_def Header_Set_def
            Let_def)
  qed
  show ?thesis
    by (rule exI [of _ w]) (intro conjI w filt main)
qed

theorem multipart_overrides_body_witness:
  \<open>is_multipart (MultipartFormField ''a'' ''1'')
   \<and> apply_options example_lib [MultipartFormField ''a'' ''1'', JsonBodyOption ''{}'' []]
       (\<lparr>request = \<lparr>Method = ''POST'', URL = Some ''/upload'', ReqHeader = Map.empty,
                     ReqBody = None\<rparr>,
         done' = False, stack = ''up_test.go:7'',
         multipartForm = None, multipartFormBuffer = []\<rparr>, example_tb)
     = (Returned (),
        (\<lparr>request = \<lparr>Method = ''POST'', URL = Some ''/upload'',
                      ReqHeader = [''Content-Type'' \<mapsto> [''application/json'']],
                      ReqBody = Some ''{}''\<rparr>,
          done' = False, stack = ''up_test.go:7'',
          multipartForm = Some [''a''], multipartFormBuffer = ''--B field a 1''\<rparr>, example_tb))
   \<and> multipart_Close example_lib ([''a''], ''--B field a 1'')
       = (([''a''], ''--B field a 1--B--''), None)
   \<and> (0::int) \<le> MaxReqRespOutput
   \<and> Test example_lib MaxReqRespOutput (Expect 0 [ExpectCode example_lib 404]) []
       \<lparr>tb = example_tb, srv_URL = ''http://srv'',
         requests =
           [\<lparr>request = \<lparr>Method = ''POST'', URL = Some ''/upload'',
                          ReqHeader = [''Content-Type'' \<mapsto> [''application/json'']],
                          ReqBody = Some ''{}''\<rparr>,
             done' = False, stack = ''up_test.go:7'',
             multipartForm = Some [''a''], multipartFormBuffer = ''--B field a 1''\<rparr>]\<rparr>
     = (Fatal,
        \<lparr>tb = \<lparr>fatals =
           [''values are not equal\<newline>expected\<newline>404\<newline>actual\<newline>200\<newline>HTTP request:\<newline>POST http://srv/upload --B field a 1--B--\<newline>HTTP response:\<newline>{"id":"7"}''],
           logs = []\<rparr>,
         srv_URL = ''http://srv'',
         requests =
           [\<lparr>request = \<lparr>Method = ''POST'', URL = Some ''http://srv/upload'',
                          ReqHeader = [''Content-Type'' \<mapsto> [''multipart/form-data; boundary=B'']],
                          ReqBody = Some ''--B field a 1--B--''\<rparr>,
             done' = True, stack = ''up_test.go:7'',
             multipartForm = Some [''a''], multipartFormBuffer = ''--B field a 1--B--''\<rparr>]\<rparr>)\<close>
  (is "?mp \<and> ?opts \<and> ?close \<and> ?nonneg \<and> ?run")
proof -
  let ?h1 = "\<lparr>request = \<lparr>Method = ''POST'', URL = Some ''/upload'',
                      ReqHeader = [''Content-Type'' \<mapsto> [''application/json'']],
                      ReqBody = Some ''{}''\<rparr>,
          done' = False, stack = ''up_test.go:7'',
          multipartForm = Some [''a''], multipartFormBuffer = ''--B field a 1''\<rparr>"
  let ?tester = "\<lparr>tb = example_tb, srv_URL = ''http://srv'', requests = [?h1]\<rparr>"
  let ?e = "Expect 0 [ExpectCode example_lib 404]"
  have mp: ?mp
    by (simp add: is_multipart_def MultipartFormField_def)
  then have ex: "\<exists>opt\<in>set [MultipartFormField ''a'' ''1'', JsonBodyOption ''{}'' []].
                   is_multipart opt"
    by simp
  have opts: ?opts
    by (simp add: run_simps)
  have close: ?close
    by (simp add: example_lib_def)
  have nonneg: ?nonneg
    by (simp add: MaxReqRespOutput_def)
  have ptr: "request_ptr ?e < length (requests ?tester)"
    by (simp add: Expect_def ExpectCode_def addExpectation_def)
  have at: "requests ?tester ! request_ptr ?e = ?h1"
    by (simp add: Expect_def ExpectCode_def addExpectation_def)
  have url: "URL (request ?h1) = Some ''/upload''"
    by simp
  have parse: "URL_Parse example_lib ''/upload'' (srv_URL ?tester @ ''/upload'')
                 = Inr ''http://srv/upload''"
    by (simp add: example_lib_def)
  from multipart_overrides_body [OF ex opts ptr at url parse nonneg, of "[]"] have ?run
    by (simp add: close)
       (simp add: run_simps dump_extra_def)
  with mp opts close nonneg show ?thesis by blast
qed

section \<open>The dumps in the reports\<close>

text \<open>
  C9. The variable \<open>MaxReqRespOutput\<close> starts at 1200. Let \<open>Test\<close> run with the value
  \<open>maxOut\<close> of the variable, not negative, on a request of the tester. What \<open>Test\<close>
  attaches of a dump is the first \<open>maxOut\<close> bytes of the dump, which is never longer
  than \<open>maxOut\<close> and is the whole dump when the dump is not longer than \<open>maxOut\<close>.
  Once the request is prepared, \<open>Test\<close> puts "HTTP request:" and the truncated dump of
  the request after the extra arguments of the caller (if the dump could be made); these
  are in the report of a failing transport and of a failing read of the body. After the
  body was read it adds "HTTP response:" and the truncated dump of the response (if that
  dump could be made, else the error is logged); all of these are the extra arguments
  of every check and capture, and so of their reports.
\<close>

theorem dumps_truncated:
  assumes "0 \<le> maxOut"
    and "request_ptr e < length (requests tester)"
  shows "MaxReqRespOutput = 1200
     \<and> truncated maxOut data t = (Returned (take (nat maxOut) data), t)
     \<and> int (length (take (nat maxOut) data)) \<le> maxOut
     \<and> (int (length data) \<le> maxOut \<longrightarrow> take (nat maxOut) data = data)
     \<and> Test L maxOut e extra tester =
       (case Test_prepare L (srv_URL tester) extra (requests tester ! request_ptr e, tb tester) of
          (Fatal, (h2, t2)) \<Rightarrow>
            (Fatal, tester\<lparr>tb := t2, requests := (requests tester)[request_ptr e := h2]\<rparr>)
        | (Panic, (h2, t2)) \<Rightarrow>
            (Panic, tester\<lparr>tb := t2, requests := (requests tester)[request_ptr e := h2]\<rparr>)
        | (Returned r, (h2, t2)) \<Rightarrow>
            (let stored = (\<lambda>t. tester\<lparr>tb := t,
                                         requests := (requests tester)[request_ptr e := h2]\<rparr>);
                 report = (\<lambda>err args. t2\<lparr>fatals := fatals t2 @
                              [strings_Join (format L (VError err) # map (format L) args)
                                 ''\<newline>'']\<rparr>);
                 extra1 = extra
                   @ (case DumpRequest L r of
                        Inl _ \<Rightarrow> []
                      | Inr reqData \<Rightarrow>
                          [VString ''HTTP request:'', VString (take (nat maxOut) reqData)])
             in case client_Do L r of
                  Inl err \<Rightarrow> (Fatal, stored (report err extra1))
                | Inr resp0 \<Rightarrow>
                    (case RespBody resp0 of
                       (body, Some err) \<Rightarrow> (Fatal, stored (report err extra1))
                     | (body, None) \<Rightarrow>
                         (case RespBody_Close resp0 of
                            Some err \<Rightarrow> (Fatal, stored (report err []))
                          | None \<Rightarrow>
                              (let resp = resp0\<lparr>RespBody := (body, None),
                                                RespBody_Close := None\<rparr>;
                                   extra2 = extra1
                                     @ (case DumpResponse L resp of
                                          Inl _ \<Rightarrow> []
                                        | Inr respData \<Rightarrow>
                                            [VString ''HTTP response:'',
                                             VString (take (nat maxOut) respData)]);
                                   t3 = (case DumpResponse L resp of
                                           Inl err \<Rightarrow> t2\<lparr>logs := logs t2 @ ([VError err] # [])\<rparr>
                                         | Inr _ \<Rightarrow> t2)
                               in case Test_checks L e resp body extra2 t3 of
                                    (out, t4) \<Rightarrow> (out, stored t4))))))"
proof (intro conjI impI)
  show "MaxReqRespOutput = 1200" by (simp add: MaxReqRespOutput_def)
  show "truncated maxOut data t = (Returned (take (nat maxOut) data), t)"
    by (rule truncated_nonneg [OF assms(1)])
  show "int (length (take (nat maxOut) data)) \<le> maxOut" using assms(1) by simp
  show "take (nat maxOut) data = data" if "int (length data) \<le> maxOut" using that by simp
  show "Test L maxOut e extra tester =
       (case Test_prepare L (srv_URL tester) extra (requests tester ! request_ptr e, tb tester) of
          (Fatal, (h2, t2)) \<Rightarrow>
            (Fatal, tester\<lparr>tb := t2, requests := (requests tester)[request_ptr e := h2]\<rparr>)
        | (Panic, (h2, t2)) \<Rightarrow>
            (Panic, tester\<lparr>tb := t2, requests := (requests tester)[request_ptr e := h2]\<rparr>)
        | (Returned r, (h2, t2)) \<Rightarrow>
            (let stored = (\<lambda>t. tester\<lparr>tb := t,
                                         requests := (requests tester)[request_ptr e := h2]\<rparr>);
                 report = (\<lambda>err args. t2\<lparr>fatals := fatals t2 @
                              [strings_Join (format L (VError err) # map (format L) args)
                                 ''\<newline>'']\<rparr>);
                 extra1 = extra
                   @ (case DumpRequest L r of
                        Inl _ \<Rightarrow> []
                      | Inr reqData \<Rightarrow>
                          [VString ''HTTP request:'', VString (take (nat maxOut) reqData)])
             in case client_Do L r of
                  Inl err \<Rightarrow> (Fatal, stored (report err extra1))
                | Inr resp0 \<Rightarrow>
                    (case RespBody resp0 of
                       (body, Some err) \<Rightarrow> (Fatal, stored (report err extra1))
                     | (body, None) \<Rightarrow>
                         (case RespBody_Close resp0 of
                            Some err \<Rightarrow> (Fatal, stored (report err []))
                          | None \<Rightarrow>
                              (let resp = resp0\<lparr>RespBody := (body, None),
                                                RespBody_Close := None\<rparr>;
                                   extra2 = extra1
                                     @ (case DumpResponse L resp of
                                          Inl _ \<Rightarrow> []
                                        | Inr respData \<Rightarrow>
                                            [VString ''HTTP response:'',
                                             VString (take (nat maxOut) respData)]);
                                   t3 = (case DumpResponse L resp of
                                           Inl err \<Rightarrow> t2\<lparr>logs := logs t2 @ ([VError err] # [])\<rparr>
                                         | Inr _ \<Rightarrow> t2)
                               in case Test_checks L e resp body extra2 t3 of
                                    (out, t4) \<Rightarrow> (out, stored t4))))))"
    unfolding Test_run [OF assms] dump_extra_def reported_def Let_def
    by (rule refl)
qed

theorem dumps_truncated_witness:
  \<open>(0::int) \<le> 3
   \<and> request_ptr (Expect 0 [ExpectCode example_lib 404])
       < length (requests \<lparr>tb = example_tb, srv_URL = ''http://srv'',
           requests =
             [\<lparr>request = \<lparr>Method = ''GET'', URL = Some ''/users'', ReqHeader = Map.empty,
                            ReqBody = None\<rparr>,
               done' = False, stack = ''users_test.go:12'',
               multipartForm = None :: string list option, multipartFormBuffer = []\<rparr>]\<rparr>)
   \<and> truncated 3 ''GET /users'' example_tb = (Returned ''GET'', example_tb)
   \<and> truncated MaxReqRespOutput ''GET /users'' example_tb = (Returned ''GET /users'', example_tb)
   \<and> Test example_lib 3 (Expect 0 [ExpectCode example_lib 404]) []
        \<lparr>tb = example_tb, srv_URL = ''http://srv'',
          requests =
            [\<lparr>request = \<lparr>Method = ''GET'', URL = Some ''/users'', ReqHeader = Map.empty,
                           ReqBody = None\<rparr>,
              done' = False, stack = ''users_test.go:12'',
              multipartForm = None :: string list option, multipartFormBuffer = []\<rparr>]\<rparr>
      = (Fatal,
         \<lparr>tb = \<lparr>fatals =
            [''values are not equal\<newline>expected\<newline>404\<newline>actual\<newline>200\<newline>HTTP request:\<newline>GET\<newline>HTTP response:\<newline>{"i''],
            logs = []\<rparr>,
          srv_URL = ''http://srv'',
          requests =
            [\<lparr>request = \<lparr>Method = ''GET'', URL = Some ''http://srv/users'',
                           ReqHeader = Map.empty, ReqBody = None\<rparr>,
              done' = True, stack = ''users_test.go:12'',
              multipartForm = None, multipartFormBuffer = []\<rparr>]\<rparr>)\<close>
  (is "?nonneg \<and> ?ptr \<and> ?short \<and> ?full \<and> ?run")
proof -
  have nonneg: ?nonneg and nonneg': "0 \<le> MaxReqRespOutput"
    by (simp_all add: MaxReqRespOutput_def)
  have ptr: ?ptr
    by (simp add: Expect_def ExpectCode_def addExpectation_def)
  note all = dumps_truncated [OF nonneg ptr, of "''GET /users''" example_tb example_lib "[]"]
  from all have short: ?short
    by simp
  from dumps_truncated [OF nonneg' ptr, of "''GET /users''" example_tb example_lib "[]"]
  have full: ?full
    by (simp add: MaxReqRespOutput_def)
  from all have run: ?run
    by (simp add: run_simps)
  from nonneg ptr short full run show ?thesis by blast
qed

end
